theory Spec2Isabelle
  imports Complex_Main "HOL-Library.Product_Lexorder"
begin

section \<open>Grid and collision model\<close>

text \<open>
  The game keeps one global \<open>maze\<close>: an array of \<open>MAZE_SIZE\<close> rows, each an array of
  \<open>MAZE_SIZE\<close> numbers, \<open>0\<close> for a path cell and \<open>1\<close> for a wall. JavaScript numbers that
  hold world coordinates are modelled as \<open>real\<close>, grid indices as \<open>int\<close>.
  A \<open>THREE.Vector3\<close> is the record \<open>vec3\<close>; its fields \<open>x\<close>, \<open>y\<close>, \<open>z\<close> are called
  \<open>vx\<close>, \<open>vy\<close>, \<open>vz\<close> here.
\<close>

definition MAZE_SIZE :: int where
  "MAZE_SIZE = 30"

type_synonym maze = "nat list list"

record vec3 =
  vx :: real
  vy :: real
  vz :: real

text \<open>
  The test \<open>maze[cx][cz] === 1\<close>. Reading a row that does not exist gives \<open>undefined\<close>, and
  indexing \<open>undefined\<close> throws a TypeError: that is \<open>None\<close>. Reading past the end of an
  existing row gives \<open>undefined\<close>, which is not \<open>1\<close>.
\<close>

definition wallCell :: "maze \<Rightarrow> int \<Rightarrow> int \<Rightarrow> bool option" where
  "wallCell m cx cz =
     (if cx < 0 \<or> int (length m) \<le> cx then None
      else if cz < 0 \<or> int (length (m ! nat cx)) \<le> cz then Some False
      else Some (m ! nat cx ! nat cz = 1))"

text \<open>The bounds test \<open>cx < 0 || cx >= MAZE_SIZE || cz < 0 || cz >= MAZE_SIZE\<close>.\<close>

definition outOfGrid :: "int \<Rightarrow> int \<Rightarrow> bool" where
  "outOfGrid cx cz \<longleftrightarrow> cx < 0 \<or> cx \<ge> MAZE_SIZE \<or> cz < 0 \<or> cz \<ge> MAZE_SIZE"

text \<open>
  The loop of \<open>isWallAt\<close> over its eight check points, already shifted to grid
  coordinates: a point outside the grid blocks, a point in a wall cell blocks.
\<close>

fun checkPoints :: "maze \<Rightarrow> (real \<times> real) list \<Rightarrow> bool option" where
  "checkPoints m [] = Some False"
| "checkPoints m ((px, pz) # rest) =
     (let cx = \<lfloor>px\<rfloor>; cz = \<lfloor>pz\<rfloor>
      in if outOfGrid cx cz then Some True
         else (case wallCell m cx cz of
                 None \<Rightarrow> None
               | Some True \<Rightarrow> Some True
               | Some False \<Rightarrow> checkPoints m rest))"

text \<open>
  \<open>isWallAt(position)\<close>, the thick-body test used for the player and for bullets. The
  local constant \<open>playerRadius\<close> is \<open>0.25\<close> in \<open>game.js\<close> and \<open>0.35\<close> in the mode-select
  edition; it is the first argument here.
\<close>

definition isWallAt :: "real \<Rightarrow> maze \<Rightarrow> vec3 \<Rightarrow> bool option" where
  "isWallAt playerRadius m position =
     (let gridX = \<lfloor>vx position + real_of_int MAZE_SIZE / 2\<rfloor>;
          gridZ = \<lfloor>vz position + real_of_int MAZE_SIZE / 2\<rfloor>
      in if outOfGrid gridX gridZ then Some True
         else (case wallCell m gridX gridZ of
                 None \<Rightarrow> None
               | Some True \<Rightarrow> Some True
               | Some False \<Rightarrow>
                   (let playerGridX = vx position + real_of_int MAZE_SIZE / 2;
                        playerGridZ = vz position + real_of_int MAZE_SIZE / 2
                    in checkPoints m
                         [(playerGridX - playerRadius, playerGridZ - playerRadius),
                          (playerGridX + playerRadius, playerGridZ - playerRadius),
                          (playerGridX - playerRadius, playerGridZ + playerRadius),
                          (playerGridX + playerRadius, playerGridZ + playerRadius),
                          (playerGridX - playerRadius, playerGridZ),
                          (playerGridX + playerRadius, playerGridZ),
                          (playerGridX, playerGridZ - playerRadius),
                          (playerGridX, playerGridZ + playerRadius)])))"

definition playerRadius_basic :: real where
  "playerRadius_basic = 0.25"

definition playerRadius_modes :: real where
  "playerRadius_modes = 0.35"

text \<open>
  The corner loop of \<open>isWallAtZombie\<close>: a corner counts only when it lies inside the
  grid and its cell is a wall.
\<close>

fun checkCorners :: "maze \<Rightarrow> (real \<times> real) list \<Rightarrow> bool option" where
  "checkCorners m [] = Some False"
| "checkCorners m ((px, pz) # rest) =
     (let cornerGridX = \<lfloor>px\<rfloor>; cornerGridZ = \<lfloor>pz\<rfloor>
      in if cornerGridX \<ge> 0 \<and> cornerGridX < MAZE_SIZE \<and> cornerGridZ \<ge> 0 \<and> cornerGridZ < MAZE_SIZE
         then (case wallCell m cornerGridX cornerGridZ of
                 None \<Rightarrow> None
               | Some True \<Rightarrow> Some True
               | Some False \<Rightarrow> checkCorners m rest)
         else checkCorners m rest)"

text \<open>\<open>isWallAtZombie(position)\<close>, the thin-body test written for the enemies.\<close>

definition isWallAtZombie :: "maze \<Rightarrow> vec3 \<Rightarrow> bool option" where
  "isWallAtZombie m position =
     (let gridX = \<lfloor>vx position + real_of_int MAZE_SIZE / 2\<rfloor>;
          gridZ = \<lfloor>vz position + real_of_int MAZE_SIZE / 2\<rfloor>
      in if outOfGrid gridX gridZ then Some True
         else (case wallCell m gridX gridZ of
                 None \<Rightarrow> None
               | Some True \<Rightarrow> Some True
               | Some False \<Rightarrow>
                   (let cellX = vx position + real_of_int MAZE_SIZE / 2;
                        cellZ = vz position + real_of_int MAZE_SIZE / 2;
                        zombieRadius = 0.001
                    in checkCorners m
                         [(cellX - zombieRadius, cellZ - zombieRadius),
                          (cellX + zombieRadius, cellZ - zombieRadius),
                          (cellX - zombieRadius, cellZ + zombieRadius),
                          (cellX + zombieRadius, cellZ + zombieRadius)])))"


section \<open>Player movement\<close>

text \<open>\<open>Vector3.add\<close> and \<open>Vector3.length\<close>.\<close>

definition addv :: "vec3 \<Rightarrow> vec3 \<Rightarrow> vec3" where
  "addv a b = \<lparr>vx = vx a + vx b, vy = vy a + vy b, vz = vz a + vz b\<rparr>"

definition vlength :: "vec3 \<Rightarrow> real" where
  "vlength a = sqrt (vx a * vx a + vy a * vy a + vz a * vz a)"

text \<open>The eight micro-movements of \<open>updatePlayer\<close>, \<open>microDistance = 0.005\<close>, in source order.\<close>

definition microDistance :: real where
  "microDistance = 0.005"

definition microDirections :: "vec3 list" where
  "microDirections =
     [\<lparr>vx = microDistance, vy = 0, vz = 0\<rparr>,
      \<lparr>vx = - microDistance, vy = 0, vz = 0\<rparr>,
      \<lparr>vx = 0, vy = 0, vz = microDistance\<rparr>,
      \<lparr>vx = 0, vy = 0, vz = - microDistance\<rparr>,
      \<lparr>vx = microDistance, vy = 0, vz = microDistance\<rparr>,
      \<lparr>vx = - microDistance, vy = 0, vz = microDistance\<rparr>,
      \<lparr>vx = microDistance, vy = 0, vz = - microDistance\<rparr>,
      \<lparr>vx = - microDistance, vy = 0, vz = - microDistance\<rparr>]"

text \<open>
  The \<open>for (const dir of microDirections)\<close> loop: the first micro position that is not a
  wall is copied into \<open>player.position\<close> and the loop breaks; when the list is used up the
  position stays as it was.
\<close>

fun microLoop :: "real \<Rightarrow> maze \<Rightarrow> vec3 \<Rightarrow> vec3 list \<Rightarrow> vec3 option" where
  "microLoop r m currentPos [] = Some currentPos"
| "microLoop r m currentPos (dir # rest) =
     (let microPos = addv currentPos dir
      in case isWallAt r m microPos of
           None \<Rightarrow> None
         | Some False \<Rightarrow> Some microPos
         | Some True \<Rightarrow> microLoop r m currentPos rest)"

text \<open>
  The block "Position update with collision detection" of \<open>updatePlayer\<close>: from the
  player's position and its velocity after acceleration, friction and the speed limit, to
  the player's position at the end of the frame. \<open>None\<close> is a thrown TypeError.
\<close>

definition movePlayer :: "real \<Rightarrow> maze \<Rightarrow> vec3 \<Rightarrow> vec3 \<Rightarrow> vec3 option" where
  "movePlayer r m position velocity =
     (if vlength velocity > 0.001 then
        (let newPosition = addv position velocity
         in case isWallAt r m newPosition of
              None \<Rightarrow> None
            | Some False \<Rightarrow> Some newPosition
            | Some True \<Rightarrow>
                (let slideX = position\<lparr>vx := vx newPosition\<rparr>
                 in case isWallAt r m slideX of
                      None \<Rightarrow> None
                    | Some blockedX \<Rightarrow>
                        (let position1 = (if \<not> blockedX then position\<lparr>vx := vx slideX\<rparr> else position);
                             moved1 = (\<not> blockedX);
                             slideZ = position1\<lparr>vz := vz newPosition\<rparr>
                         in case isWallAt r m slideZ of
                              None \<Rightarrow> None
                            | Some blockedZ \<Rightarrow>
                                (let position2 = (if \<not> blockedZ then position1\<lparr>vz := vz slideZ\<rparr> else position1);
                                     moved = (moved1 \<or> \<not> blockedZ)
                                 in if \<not> moved then microLoop r m position2 microDirections
                                    else Some position2))))
      else Some position)"

text \<open>A position is blocked for the player when the thick-body test answers \<open>true\<close>.\<close>

definition blocksPlayer :: "real \<Rightarrow> maze \<Rightarrow> vec3 \<Rightarrow> bool" where
  "blocksPlayer r m q \<longleftrightarrow> isWallAt r m q = Some True"

text \<open>
  A small hand-made grid for concrete runs: everything is wall except the row \<open>z = 15\<close> and
  the column \<open>x = 16\<close>, each open from index 1 to 28, and a pocket of two cells,
  \<open>(5, 5)\<close> and \<open>(6, 5)\<close>.
\<close>

definition demoMaze :: maze where
  "demoMaze =
     map (\<lambda>cx. map (\<lambda>cz. if (cz = 15 \<and> 1 \<le> cx \<and> cx \<le> 28) \<or> (cx = 16 \<and> 1 \<le> cz \<and> cz \<le> 28)
                             \<or> (cz = 5 \<and> (cx = 5 \<or> cx = 6))
                          then 0 else 1) [0..<30]) [0..<30]"

section \<open>Lane-confined agents\<close>

text \<open>
  An enemy ("jumper") as \<open>createJumpers\<close> builds it, without its mesh and without the
  fields no update reads (\<open>speed\<close>, \<open>health\<close>, \<open>lastAttackTime\<close>, \<open>chaseRange\<close>,
  \<open>laneName\<close>). \<open>patrolAxis\<close> and \<open>lane.axis\<close> are the strings \<open>'x'\<close> and \<open>'z'\<close>;
  \<open>state\<close> is one of \<open>'hopping'\<close>, \<open>'chasing'\<close>, \<open>'queued'\<close>. \<open>globalChase\<close> is absent
  (falsy) until the survival branch sets it to \<open>true\<close>. \<open>gameMode\<close> is \<open>null\<close>,
  \<open>'hunt'\<close> or \<open>'survival'\<close>.
\<close>

datatype axis = AxisX | AxisZ

datatype jumper_state = Hopping | Chasing | Queued

datatype game_mode = NoMode | Hunt | Survival

record lane =
  xMin :: real
  xMax :: real
  zMin :: real
  zMax :: real
  axis :: axis
  fixedCoord :: real

record jumper =
  position :: vec3
  direction :: vec3
  state :: jumper_state
  laneInfo :: lane
  patrolAxis :: axis
  patrolMin :: real
  patrolMax :: real
  patrolDirection :: real
  jumpPhase :: real
  baseY :: real
  globalChase :: bool

definition JUMPER_SPEED :: real where
  "JUMPER_SPEED = 0.08"

definition JUMP_HEIGHT :: real where
  "JUMP_HEIGHT = 1.4"

definition JUMP_FREQUENCY :: real where
  "JUMP_FREQUENCY = 0.20"

text \<open>\<open>Vector3.multiplyScalar\<close> and \<open>Vector3.normalize\<close> (which divides by \<open>length() || 1\<close>).\<close>

definition multiplyScalar :: "vec3 \<Rightarrow> real \<Rightarrow> vec3" where
  "multiplyScalar a s = \<lparr>vx = vx a * s, vy = vy a * s, vz = vz a * s\<rparr>"

definition normalize :: "vec3 \<Rightarrow> vec3" where
  "normalize a = multiplyScalar a (1 / (if vlength a = 0 then 1 else vlength a))"

text \<open>The remainder operator \<open>%\<close> on numbers: the quotient is truncated toward zero.\<close>

definition js_rem :: "real \<Rightarrow> real \<Rightarrow> real" where
  "js_rem a b = a - b * real_of_int (if a / b < 0 then \<lceil>a / b\<rceil> else \<lfloor>a / b\<rfloor>)"

text \<open>
  The lane test at the head of \<open>updateJumpers\<close>, \<open>tolerance = 1.2\<close>: the branch is chosen
  by the agent's \<open>patrolAxis\<close>, the numbers are read from its \<open>laneInfo\<close>.
\<close>

definition playerInLane :: "vec3 \<Rightarrow> jumper \<Rightarrow> bool" where
  "playerInLane playerPos j =
     (let ln = laneInfo j; tolerance = 1.2
      in if patrolAxis j = AxisX then
           (let playerInLaneZ = (\<bar>vz playerPos - fixedCoord ln\<bar> < tolerance);
                playerInLaneX = (vx playerPos \<ge> xMin ln - 1.0 \<and> vx playerPos \<le> xMax ln + 1.0)
            in playerInLaneZ \<and> playerInLaneX)
         else
           (let playerInLaneX = (\<bar>vx playerPos - fixedCoord ln\<bar> < tolerance);
                playerInLaneZ = (vz playerPos \<ge> zMin ln - 1.0 \<and> vz playerPos \<le> zMax ln + 1.0)
            in playerInLaneX \<and> playerInLaneZ))"

text \<open>
  The body of the first \<open>jumpers.forEach\<close> of \<open>updateJumpers\<close> in the mode-select edition
  ("Manage jumper state"), for one agent.
\<close>

definition updateJumperState :: "game_mode \<Rightarrow> vec3 \<Rightarrow> jumper \<Rightarrow> jumper" where
  "updateJumperState gameMode playerPos j =
     (let inLane = playerInLane playerPos j
      in if gameMode = Survival then
           (if inLane \<and> state j \<noteq> Chasing then j\<lparr>state := Chasing, globalChase := True\<rparr> else j)
         else
           (let shouldAttack = inLane
            in if shouldAttack \<and> state j \<noteq> Chasing then j\<lparr>state := Chasing\<rparr>
               else if \<not> shouldAttack \<and> state j = Chasing then j\<lparr>state := Hopping\<rparr>
               else j))"

text \<open>The same loop body in \<open>game.js\<close>, which has no game modes.\<close>

definition updateJumperState_basic :: "vec3 \<Rightarrow> jumper \<Rightarrow> jumper" where
  "updateJumperState_basic playerPos j =
     (let shouldAttack = playerInLane playerPos j
      in if shouldAttack \<and> state j \<noteq> Chasing then j\<lparr>state := Chasing\<rparr>
         else if \<not> shouldAttack \<and> state j = Chasing then j\<lparr>state := Hopping\<rparr>
         else j)"

text \<open>
  The height of the hop for a jump phase: \<open>jumpCycle = jumpPhase % (2\<pi>)\<close>, in the air
  while \<open>jumpCycle < 0.6\<pi>\<close>, on a parabola.
\<close>

definition jumpHeightAt :: "real \<Rightarrow> real" where
  "jumpHeightAt phase =
     (let jumpCycle = js_rem phase (pi * 2);
          isInAir = (jumpCycle < pi * 0.6)
      in if isInAir then (let t = jumpCycle / (pi * 0.6) in JUMP_HEIGHT * (4 * t * (1 - t)))
         else 0)"

text \<open>
  The patrol branch shared by the states \<open>'hopping'\<close> and \<open>'queued'\<close>: turn around near a
  patrol bound, then head along the patrol axis. The result is the agent (with its new
  \<open>patrolDirection\<close>) and \<open>targetDirection\<close>.
\<close>

definition patrolTarget :: "jumper \<Rightarrow> jumper \<times> vec3" where
  "patrolTarget j =
     (let currentPos = (if patrolAxis j = AxisX then vx (position j) else vz (position j));
          j1 = (if currentPos \<ge> patrolMax j - 0.3 then j\<lparr>patrolDirection := -1\<rparr>
                else if currentPos \<le> patrolMin j + 0.3 then j\<lparr>patrolDirection := 1\<rparr>
                else j)
      in if patrolAxis j1 = AxisX
         then (j1, \<lparr>vx = patrolDirection j1, vy = 0, vz = 0\<rparr>)
         else (j1, \<lparr>vx = 0, vy = 0, vz = patrolDirection j1\<rparr>))"

text \<open>The hunt-mode chase branch: head for the player along the patrol axis.\<close>

definition huntTarget :: "vec3 \<Rightarrow> jumper \<Rightarrow> jumper \<times> vec3" where
  "huntTarget playerPos j =
     (if patrolAxis j = AxisX then
        (if vx playerPos > vx (position j) then (j, \<lparr>vx = 1, vy = 0, vz = 0\<rparr>)
         else (j, \<lparr>vx = -1, vy = 0, vz = 0\<rparr>))
      else
        (if vz playerPos > vz (position j) then (j, \<lparr>vx = 0, vy = 0, vz = 1\<rparr>)
         else (j, \<lparr>vx = 0, vy = 0, vz = -1\<rparr>)))"

text \<open>
  The survival-mode chase branch: first the agent's own patrol axis while the player is
  more than \<open>0.5\<close> away on it, otherwise the axis of the larger displacement, which
  becomes the new \<open>patrolAxis\<close>.
\<close>

definition survivalTarget :: "vec3 \<Rightarrow> jumper \<Rightarrow> jumper \<times> vec3" where
  "survivalTarget playerPos j =
     (let canMoveX = (patrolAxis j = AxisX);
          canMoveZ = (patrolAxis j = AxisZ);
          dx = vx playerPos - vx (position j);
          dz = vz playerPos - vz (position j)
      in if canMoveX \<and> \<bar>dx\<bar> > 0.5 then (j, \<lparr>vx = (if dx > 0 then 1 else -1), vy = 0, vz = 0\<rparr>)
         else if canMoveZ \<and> \<bar>dz\<bar> > 0.5 then (j, \<lparr>vx = 0, vy = 0, vz = (if dz > 0 then 1 else -1)\<rparr>)
         else if \<bar>dx\<bar> > \<bar>dz\<bar>
           then (j\<lparr>patrolAxis := AxisX\<rparr>, \<lparr>vx = (if dx > 0 then 1 else -1), vy = 0, vz = 0\<rparr>)
           else (j\<lparr>patrolAxis := AxisZ\<rparr>, \<lparr>vx = 0, vy = 0, vz = (if dz > 0 then 1 else -1)\<rparr>))"

text \<open>
  The \<open>if\<close> chain on \<open>jumper.state\<close> that chooses \<open>targetDirection\<close>, in the mode-select
  edition and in \<open>game.js\<close>. It returns the agent as well, since the patrol branch writes
  \<open>patrolDirection\<close> and the survival branch writes \<open>patrolAxis\<close>.
\<close>

definition chooseTarget :: "game_mode \<Rightarrow> vec3 \<Rightarrow> jumper \<Rightarrow> jumper \<times> vec3" where
  "chooseTarget gameMode playerPos j =
     (case state j of
        Hopping \<Rightarrow> patrolTarget j
      | Chasing \<Rightarrow> (if globalChase j \<and> gameMode = Survival then survivalTarget playerPos j
                    else huntTarget playerPos j)
      | Queued \<Rightarrow> patrolTarget j)"

definition chooseTarget_basic :: "vec3 \<Rightarrow> jumper \<Rightarrow> jumper \<times> vec3" where
  "chooseTarget_basic playerPos j =
     (case state j of
        Hopping \<Rightarrow> patrolTarget j
      | Chasing \<Rightarrow> huntTarget playerPos j
      | Queued \<Rightarrow> patrolTarget j)"

text \<open>
  \<open>jumper.direction.copy(targetDirection.normalize())\<close> when the target is longer than
  \<open>0.1\<close>, and the step \<open>newPosition = position + direction * moveSpeed\<close> when the
  direction is longer than \<open>0.1\<close>.
\<close>

definition turnTo :: "vec3 \<Rightarrow> jumper \<Rightarrow> jumper" where
  "turnTo targetDirection j =
     (if vlength targetDirection > 0.1 then j\<lparr>direction := normalize targetDirection\<rparr> else j)"

definition stepAhead :: "real \<Rightarrow> jumper \<Rightarrow> vec3" where
  "stepAhead moveSpeed j =
     (if vlength (direction j) > 0.1
      then addv (position j) (multiplyScalar (direction j) moveSpeed)
      else position j)"

text \<open>
  "FORCE LANE ALIGNMENT" and "CLAMP to lane boundaries": the coordinate across the lane
  is set to \<open>lane.fixedCoord\<close>, the coordinate along \<open>patrolAxis\<close> is clamped into
  \<open>[patrolMin, patrolMax]\<close> by \<open>Math.max(patrolMin, Math.min(patrolMax, c))\<close>.
\<close>

definition alignAndClamp :: "jumper \<Rightarrow> vec3 \<Rightarrow> vec3" where
  "alignAndClamp j newPosition =
     (let ln = laneInfo j;
          aligned = (if axis ln = AxisX then newPosition\<lparr>vz := fixedCoord ln\<rparr>
                     else newPosition\<lparr>vx := fixedCoord ln\<rparr>)
      in if patrolAxis j = AxisX
         then aligned\<lparr>vx := max (patrolMin j) (min (patrolMax j) (vx aligned))\<rparr>
         else aligned\<lparr>vz := max (patrolMin j) (min (patrolMax j) (vz aligned))\<rparr>)"

text \<open>
  The write-back: \<open>x\<close> and \<open>z\<close> from the new position, \<open>y\<close> from the hop
  (\<open>baseY + jumpHeight * chaseMultiplier\<close>).
\<close>

definition writeBack :: "real \<Rightarrow> jumper \<Rightarrow> vec3 \<Rightarrow> jumper" where
  "writeBack jumpHeight j np =
     (let chaseMultiplier = (if state j = Chasing then 1.4 else 1.0)
      in j\<lparr>position := \<lparr>vx = vx np, vy = baseY j + jumpHeight * chaseMultiplier, vz = vz np\<rparr>\<rparr>)"

text \<open>
  The body of the second \<open>jumpers.forEach\<close> of \<open>updateJumpers\<close> in the mode-select edition
  ("Update each jumper"), for one agent, up to the write-back of \<open>jumper.position\<close>; the
  mesh rotation, tilt, scale and glow that follow do not feed back. \<open>None\<close> is a TypeError
  thrown by \<open>maze[mazeX][mazeZ]\<close>.
\<close>

definition moveJumper :: "game_mode \<Rightarrow> maze \<Rightarrow> vec3 \<Rightarrow> jumper \<Rightarrow> jumper option" where
  "moveJumper gameMode m playerPos j =
     (let j1 = j\<lparr>jumpPhase := jumpPhase j + JUMP_FREQUENCY\<rparr>;
          jumpHeight = jumpHeightAt (jumpPhase j1);
          chosen = chooseTarget gameMode playerPos j1;
          j3 = turnTo (snd chosen) (fst chosen);
          moveSpeed = (if state j3 = Queued then JUMPER_SPEED * 0.7
                       else if globalChase j3 \<and> gameMode = Survival then JUMPER_SPEED * 0.5
                       else JUMPER_SPEED);
          newPosition = stepAhead moveSpeed j3
      in if globalChase j3 \<and> gameMode = Survival then
           (let mazeX = \<lfloor>vx newPosition + real_of_int MAZE_SIZE / 2\<rfloor>;
                mazeZ = \<lfloor>vz newPosition + real_of_int MAZE_SIZE / 2\<rfloor>
            in if mazeX < 0 \<or> mazeX \<ge> MAZE_SIZE \<or> mazeZ < 0 \<or> mazeZ \<ge> MAZE_SIZE
               then Some (writeBack jumpHeight j3 (position j3))
               else (case wallCell m mazeX mazeZ of
                       None \<Rightarrow> None
                     | Some True \<Rightarrow> Some (writeBack jumpHeight j3 (position j3))
                     | Some False \<Rightarrow> Some (writeBack jumpHeight j3 newPosition)))
         else Some (writeBack jumpHeight j3 (alignAndClamp j3 newPosition)))"

text \<open>
  The same loop body in \<open>game.js\<close>: no survival branch, so lane alignment and the clamp
  to the patrol bounds run for every agent in every state, and no maze cell is read.
\<close>

definition moveJumper_basic :: "vec3 \<Rightarrow> jumper \<Rightarrow> jumper" where
  "moveJumper_basic playerPos j =
     (let j1 = j\<lparr>jumpPhase := jumpPhase j + JUMP_FREQUENCY\<rparr>;
          jumpHeight = jumpHeightAt (jumpPhase j1);
          chosen = chooseTarget_basic playerPos j1;
          j3 = turnTo (snd chosen) (fst chosen);
          moveSpeed = (if state j3 = Queued then JUMPER_SPEED * 0.7 else JUMPER_SPEED);
          newPosition = stepAhead moveSpeed j3
      in writeBack jumpHeight j3 (alignAndClamp j3 newPosition))"

text \<open>
  One frame of \<open>updateJumpers\<close> for one agent: its state is settled in the first loop,
  it moves in the second. The two loops treat every agent on its own, so a frame over
  the array \<open>jumpers\<close> is this step on each element.
\<close>

definition stepJumper :: "game_mode \<Rightarrow> maze \<Rightarrow> vec3 \<Rightarrow> jumper \<Rightarrow> jumper option" where
  "stepJumper gameMode m playerPos j = moveJumper gameMode m playerPos (updateJumperState gameMode playerPos j)"

definition stepJumper_basic :: "vec3 \<Rightarrow> jumper \<Rightarrow> jumper" where
  "stepJumper_basic playerPos j = moveJumper_basic playerPos (updateJumperState_basic playerPos j)"

text \<open>Frame after frame, the player at the positions \<open>ps\<close> in turn.\<close>

fun runFrames :: "game_mode \<Rightarrow> maze \<Rightarrow> vec3 list \<Rightarrow> jumper \<Rightarrow> jumper option" where
  "runFrames gameMode m [] j = Some j"
| "runFrames gameMode m (p # ps) j =
     (case stepJumper gameMode m p j of
        None \<Rightarrow> None
      | Some j' \<Rightarrow> runFrames gameMode m ps j')"

fun runFrames_basic :: "vec3 list \<Rightarrow> jumper \<Rightarrow> jumper" where
  "runFrames_basic [] j = j"
| "runFrames_basic (p # ps) j = runFrames_basic ps (stepJumper_basic p j)"

section \<open>Corridor detection and spawn allocation\<close>

text \<open>
  A corridor object of \<open>createJumpers\<close>. A horizontal one carries \<open>startX\<close>, \<open>endX\<close> and
  its row \<open>z\<close>; a vertical one carries \<open>startZ\<close>, \<open>endZ\<close> and its column \<open>x\<close>. Here
  \<open>cstart\<close> and \<open>cend\<close> are the two ends and \<open>cfixed\<close> is the row or column. The \<open>id\<close>
  string (\<open>H_startX_z_length\<close> or \<open>V_x_startZ_length\<close>) is \<open>corridorId\<close>.
\<close>

datatype corridor_type = Horizontal | Vertical

record corridor =
  ctype :: corridor_type
  cstart :: int
  cend :: int
  cfixed :: int
  clength :: int

definition corridorId :: "corridor \<Rightarrow> corridor_type \<times> int \<times> int \<times> int" where
  "corridorId c =
     (case ctype c of
        Horizontal \<Rightarrow> (Horizontal, cstart c, cfixed c, clength c)
      | Vertical \<Rightarrow> (Vertical, cfixed c, cstart c, clength c))"

definition JUMPER_COUNT :: nat where
  "JUMPER_COUNT = 15"

text \<open>The test \<open>maze[x][z] === 0\<close>; \<open>None\<close> is the TypeError of a missing row.\<close>

definition pathCell :: "maze \<Rightarrow> int \<Rightarrow> int \<Rightarrow> bool option" where
  "pathCell m cx cz =
     (if cx < 0 \<or> int (length m) \<le> cx then None
      else if cz < 0 \<or> int (length (m ! nat cx)) \<le> cz then Some False
      else Some (m ! nat cx ! nat cz = 0))"

text \<open>
  \<open>corridors.push\<close> guarded by the set \<open>usedCorridors\<close>, which holds the ids of the
  corridors pushed so far.
\<close>

definition pushCorridor :: "corridor \<Rightarrow> corridor list \<Rightarrow> corridor list" where
  "pushCorridor c cs = (if corridorId c \<notin> set (map corridorId cs) then cs @ [c] else cs)"

definition newCorridor :: "corridor_type \<Rightarrow> int \<Rightarrow> int \<Rightarrow> int \<Rightarrow> corridor" where
  "newCorridor t start fixed len =
     \<lparr>ctype = t, cstart = start, cend = start + len - 1, cfixed = fixed, clength = len\<rparr>"

text \<open>
  The inner loop of a scan along one line of the grid: \<open>cell i\<close> is the path test of the
  \<open>i\<close>-th cell of the line, and the state is \<open>(start, length, corridors)\<close>.
\<close>

fun scanLine :: "(int \<Rightarrow> bool option) \<Rightarrow> corridor_type \<Rightarrow> int \<Rightarrow> int list \<Rightarrow>
                 int \<Rightarrow> int \<Rightarrow> corridor list \<Rightarrow> (int \<times> int \<times> corridor list) option" where
  "scanLine cell t fixed [] start len cs = Some (start, len, cs)"
| "scanLine cell t fixed (i # rest) start len cs =
     (case cell i of
        None \<Rightarrow> None
      | Some True \<Rightarrow> scanLine cell t fixed rest (if start = -1 then i else start) (len + 1) cs
      | Some False \<Rightarrow>
          scanLine cell t fixed rest (-1) 0
            (if len \<ge> 2 then pushCorridor (newCorridor t start fixed len) cs else cs))"

text \<open>
  The outer loop: every line from \<open>1\<close> to \<open>MAZE_SIZE - 2\<close>, and the push after the inner
  loop for a run that reaches the end of the line.
\<close>

fun scanLines :: "(int \<Rightarrow> int \<Rightarrow> bool option) \<Rightarrow> corridor_type \<Rightarrow> int list \<Rightarrow>
                  corridor list \<Rightarrow> corridor list option" where
  "scanLines cell t [] cs = Some cs"
| "scanLines cell t (fixed # rest) cs =
     (case scanLine (cell fixed) t fixed [1 .. MAZE_SIZE - 2] (-1) 0 cs of
        None \<Rightarrow> None
      | Some (start, len, cs') \<Rightarrow>
          scanLines cell t rest
            (if len \<ge> 2 then pushCorridor (newCorridor t start fixed len) cs' else cs'))"

text \<open>Horizontal corridors row by row, then vertical corridors column by column.\<close>

definition detectCorridors :: "maze \<Rightarrow> corridor list option" where
  "detectCorridors m =
     (case scanLines (\<lambda>cz cx. pathCell m cx cz) Horizontal [1 .. MAZE_SIZE - 2] [] of
        None \<Rightarrow> None
      | Some hs \<Rightarrow> scanLines (\<lambda>cx cz. pathCell m cx cz) Vertical [1 .. MAZE_SIZE - 2] hs)"

text \<open>
  The two calls of \<open>corridors.sort\<close>: by type (\<open>'horizontal'\<close> before \<open>'vertical'\<close>) and
  row or column, then by length, longest first. \<open>Array.prototype.sort\<close> is stable, as is
  \<open>sort_key\<close>.
\<close>

definition typeRank :: "corridor_type \<Rightarrow> nat" where
  "typeRank t = (case t of Horizontal \<Rightarrow> 0 | Vertical \<Rightarrow> 1)"

definition sortCorridors :: "corridor list \<Rightarrow> corridor list" where
  "sortCorridors cs =
     sort_key (\<lambda>c. - clength c) (sort_key (\<lambda>c. (typeRank (ctype c), cfixed c)) cs)"

text \<open>
  The spacing loop over \<open>selectedCorridors\<close>: \<open>tooClose\<close> becomes true at a selected
  corridor of the same type whose row or column is nearer than \<open>minDist\<close>.
\<close>

definition tooClose :: "int \<Rightarrow> corridor \<Rightarrow> corridor list \<Rightarrow> bool" where
  "tooClose minDist c selected =
     list_ex (\<lambda>s. ctype c = ctype s \<and> \<bar>cfixed c - cfixed s\<bar> < minDist) selected"

text \<open>First pass: long corridors (length at least 5), \<open>minDistanceBetweenJumpers = 4.0\<close>.\<close>

fun firstPass :: "corridor list \<Rightarrow> corridor list \<Rightarrow> corridor list" where
  "firstPass [] selected = selected"
| "firstPass (c # cs) selected =
     (if length selected \<ge> JUMPER_COUNT then selected
      else if clength c \<ge> 5 then
        (if \<not> tooClose 4 c selected then firstPass cs (selected @ [c]) else firstPass cs selected)
      else firstPass cs selected)"

text \<open>
  Second pass: any corridor not yet selected, minimum distance \<open>2.0\<close>.
  \<open>selectedCorridors.includes(corridor)\<close> compares object identity; membership by value
  gives the same selection, because an equal corridor that is another object has the
  same type and distance \<open>0\<close> to its twin and is refused by the spacing loop.
\<close>

fun secondPass :: "corridor list \<Rightarrow> corridor list \<Rightarrow> corridor list" where
  "secondPass [] selected = selected"
| "secondPass (c # cs) selected =
     (if length selected \<ge> JUMPER_COUNT then selected
      else if c \<in> set selected then secondPass cs selected
      else if \<not> tooClose 2 c selected then secondPass cs (selected @ [c])
      else secondPass cs selected)"

definition selectCorridors :: "corridor list \<Rightarrow> corridor list" where
  "selectCorridors corridors =
     (let sorted = sortCorridors corridors
      in if length sorted > 0 then secondPass sorted (firstPass sorted []) else [])"

text \<open>
  The agent built for a selected corridor; \<open>phase\<close> is the value of
  \<open>Math.random() * Math.PI * 2\<close> drawn for its \<open>jumpPhase\<close>.
\<close>

definition makeJumper :: "corridor \<Rightarrow> real \<Rightarrow> jumper" where
  "makeJumper c phase =
     (case ctype c of
        Horizontal \<Rightarrow>
          (let worldZ = real_of_int (cfixed c) - real_of_int MAZE_SIZE / 2;
               worldStartX = real_of_int (cstart c) - real_of_int MAZE_SIZE / 2;
               worldEndX = real_of_int (cend c) - real_of_int MAZE_SIZE / 2;
               centerX = (worldStartX + worldEndX) / 2
           in \<lparr>position = \<lparr>vx = centerX, vy = 0.8, vz = worldZ\<rparr>,
               direction = \<lparr>vx = 1, vy = 0, vz = 0\<rparr>,
               state = Hopping,
               laneInfo = \<lparr>xMin = worldStartX + 0.5, xMax = worldEndX - 0.5,
                            zMin = worldZ - 0.5, zMax = worldZ + 0.5,
                            axis = AxisX, fixedCoord = worldZ\<rparr>,
               patrolAxis = AxisX,
               patrolMin = worldStartX + 1.0,
               patrolMax = worldEndX - 1.0,
               patrolDirection = 1,
               jumpPhase = phase,
               baseY = 0.8,
               globalChase = False\<rparr>)
      | Vertical \<Rightarrow>
          (let worldX = real_of_int (cfixed c) - real_of_int MAZE_SIZE / 2;
               worldStartZ = real_of_int (cstart c) - real_of_int MAZE_SIZE / 2;
               worldEndZ = real_of_int (cend c) - real_of_int MAZE_SIZE / 2;
               centerZ = (worldStartZ + worldEndZ) / 2
           in \<lparr>position = \<lparr>vx = worldX, vy = 0.8, vz = centerZ\<rparr>,
               direction = \<lparr>vx = 0, vy = 0, vz = 1\<rparr>,
               state = Hopping,
               laneInfo = \<lparr>xMin = worldX - 0.5, xMax = worldX + 0.5,
                            zMin = worldStartZ + 0.5, zMax = worldEndZ - 0.5,
                            axis = AxisZ, fixedCoord = worldX\<rparr>,
               patrolAxis = AxisZ,
               patrolMin = worldStartZ + 1.0,
               patrolMax = worldEndZ - 1.0,
               patrolDirection = 1,
               jumpPhase = phase,
               baseY = 0.8,
               globalChase = False\<rparr>))"

text \<open>
  \<open>createJumpers\<close>: detect, sort, select, build. \<open>phases i\<close> is the random jump
  phase drawn for the \<open>i\<close>-th selected corridor.
\<close>

definition createJumpers :: "maze \<Rightarrow> (nat \<Rightarrow> real) \<Rightarrow> jumper list option" where
  "createJumpers m phases =
     (case detectCorridors m of
        None \<Rightarrow> None
      | Some corridors \<Rightarrow>
          Some (map (\<lambda>(i, c). makeJumper c (phases i)) (enumerate 0 (selectCorridors corridors))))"

text \<open>
  The coordinate of an agent along its patrol axis, the source's
  \<open>jumper.patrolAxis === 'x' ? jumper.position.x : jumper.position.z\<close>.
\<close>

definition patrolCoord :: "jumper \<Rightarrow> real" where
  "patrolCoord j = (if patrolAxis j = AxisX then vx (position j) else vz (position j))"

text \<open>
  The agent \<open>createJumpers\<close> builds for the long row of \<open>demoMaze\<close> (cells 1 to 28 of
  row 15), with jump phase 0.
\<close>

definition demoJumper :: jumper where
  "demoJumper = makeJumper (newCorridor Horizontal 1 15 28) 0"

text \<open>
  Two properties of the allocator's data, used to state claims. A corridor is well built
  when its far end is \<open>start + length - 1\<close> and it has at least two cells. A selection is
  spaced by \<open>d\<close> when any two of its corridors of the same orientation, at different places
  of the list, have rows or columns at least \<open>d\<close> apart.
\<close>

definition wellBuilt :: "corridor \<Rightarrow> bool" where
  "wellBuilt c \<longleftrightarrow> cend c = cstart c + clength c - 1 \<and> 2 \<le> clength c"

definition spacedAtLeast :: "int \<Rightarrow> corridor list \<Rightarrow> bool" where
  "spacedAtLeast d sel \<longleftrightarrow>
     (\<forall>i j. i < length sel \<and> j < length sel \<and> i \<noteq> j \<and> ctype (sel ! i) = ctype (sel ! j)
            \<longrightarrow> d \<le> \<bar>cfixed (sel ! i) - cfixed (sel ! j)\<bar>)"

text \<open>A list of corridors for a concrete run of the allocator.\<close>

definition demoCorridors :: "corridor list" where
  "demoCorridors =
     [newCorridor Horizontal 1 3 6, newCorridor Horizontal 1 5 6, newCorridor Horizontal 1 7 6,
      newCorridor Horizontal 10 4 2, newCorridor Vertical 12 9 7]"

section \<open>Combat\<close>

definition KNIFE_RANGE :: real where
  "KNIFE_RANGE = 2.8"

definition KNIFE_COOLDOWN :: real where
  "KNIFE_COOLDOWN = 200"

text \<open>\<open>Vector3.distanceTo\<close>: the distance in three dimensions, \<open>y\<close> included.\<close>

definition distanceTo :: "vec3 \<Rightarrow> vec3 \<Rightarrow> real" where
  "distanceTo a b =
     sqrt ((vx a - vx b) * (vx a - vx b) + (vy a - vy b) * (vy a - vy b) + (vz a - vz b) * (vz a - vz b))"

text \<open>
  The lane test that \<open>shoot\<close>, \<open>updateBullets\<close> and the contact check of \<open>updatePlayer\<close>
  each write out, \<open>tolerance = 0.8\<close>: \<open>q\<close> is the position of the player or of the bullet.
\<close>

definition inSameLane :: "vec3 \<Rightarrow> jumper \<Rightarrow> bool" where
  "inSameLane q j =
     (let ln = laneInfo j; tolerance = 0.8
      in if patrolAxis j = AxisX then
           (let inLaneZ = (\<bar>vz q - fixedCoord ln\<bar> < tolerance);
                inLaneX = (vx q \<ge> xMin ln - 0.5 \<and> vx q \<le> xMax ln + 0.5)
            in inLaneZ \<and> inLaneX)
         else
           (let inLaneX = (\<bar>vx q - fixedCoord ln\<bar> < tolerance);
                inLaneZ = (vz q \<ge> zMin ln - 0.5 \<and> vz q \<le> zMax ln + 0.5)
            in inLaneX \<and> inLaneZ))"

text \<open>\<open>array.splice(i, 1)\<close>, as \<open>removeJumper\<close> does on \<open>jumpers\<close>.\<close>

definition splice1 :: "nat \<Rightarrow> 'a list \<Rightarrow> 'a list" where
  "splice1 i xs = take i xs @ drop (Suc i) xs"

definition maxHits :: nat where
  "maxHits = 1"

text \<open>
  The enemy loop of the knife branch of \<open>shoot\<close>,
  \<open>for (let i = jumpers.length - 1; i >= 0 && hitCount < maxHits; i--)\<close>: the argument
  \<open>Suc i\<close> stands for the loop at index \<open>i\<close>, \<open>0\<close> for the loop past index 0. A hit
  removes the agent from the array. The result is the array and \<open>hitCount\<close>.
\<close>

fun knifeLoop :: "vec3 \<Rightarrow> jumper list \<Rightarrow> nat \<Rightarrow> nat \<Rightarrow> jumper list \<times> nat" where
  "knifeLoop playerPos jumpers 0 hitCount = (jumpers, hitCount)"
| "knifeLoop playerPos jumpers (Suc i) hitCount =
     (if hitCount < maxHits then
        (let jumper = jumpers ! i;
             distance = distanceTo playerPos (position jumper)
         in if inSameLane playerPos jumper \<and> distance < KNIFE_RANGE
            then knifeLoop playerPos (splice1 i jumpers) i (hitCount + 1)
            else knifeLoop playerPos jumpers i hitCount)
      else (jumpers, hitCount))"

text \<open>
  The knife branch of \<open>shoot\<close>: nothing happens during the cooldown or while the knife
  is still swinging; otherwise the enemy loop runs.
\<close>

definition shootKnife :: "real \<Rightarrow> real \<Rightarrow> bool \<Rightarrow> vec3 \<Rightarrow> jumper list \<Rightarrow> jumper list \<times> nat" where
  "shootKnife now lastShotTime isSwinging playerPos jumpers =
     (if now - lastShotTime < KNIFE_COOLDOWN then (jumpers, 0)
      else if isSwinging then (jumpers, 0)
      else knifeLoop playerPos jumpers (length jumpers) 0)"

text \<open>A bullet: the position of its mesh, its velocity and its age in frames.\<close>

record bullet =
  bulletPos :: vec3
  velocity :: vec3
  lifetime :: nat

text \<open>
  The enemy loop of \<open>updateBullets\<close> for a bullet at \<open>q\<close>,
  \<open>for (let j = jumpers.length - 1; j >= 0; j--)\<close>, which breaks at the first hit
  (\<open>hitDistance < 0.7\<close>). The result is the array and whether the bullet hit.
\<close>

fun bulletHitLoop :: "vec3 \<Rightarrow> jumper list \<Rightarrow> nat \<Rightarrow> jumper list \<times> bool" where
  "bulletHitLoop q jumpers 0 = (jumpers, False)"
| "bulletHitLoop q jumpers (Suc jx) =
     (let jumper = jumpers ! jx;
          hitDistance = distanceTo q (position jumper)
      in if inSameLane q jumper \<and> hitDistance < 0.7 then (splice1 jx jumpers, True)
         else bulletHitLoop q jumpers jx)"

text \<open>
  The bullet loop of \<open>updateBullets\<close>, \<open>for (let i = bullets.length - 1; i >= 0; i--)\<close>:
  move, age, drop the bullet in a wall or older than 200 frames, else look for an enemy
  to hit. \<open>r\<close> is the body radius of \<open>isWallAt\<close>; \<open>None\<close> is a thrown TypeError.
\<close>

fun bulletLoop :: "real \<Rightarrow> maze \<Rightarrow> bullet list \<Rightarrow> jumper list \<Rightarrow> nat \<Rightarrow>
                   (bullet list \<times> jumper list) option" where
  "bulletLoop r m bullets jumpers 0 = Some (bullets, jumpers)"
| "bulletLoop r m bullets jumpers (Suc i) =
     (let b = bullets ! i;
          b' = b\<lparr>bulletPos := addv (bulletPos b) (velocity b), lifetime := lifetime b + 1\<rparr>;
          bullets' = bullets[i := b']
      in case isWallAt r m (bulletPos b') of
           None \<Rightarrow> None
         | Some inWall \<Rightarrow>
             if inWall \<or> lifetime b' > 200 then bulletLoop r m (splice1 i bullets') jumpers i
             else (let (jumpers', hit) = bulletHitLoop (bulletPos b') jumpers (length jumpers)
                   in if hit then bulletLoop r m (splice1 i bullets') jumpers' i
                      else bulletLoop r m bullets' jumpers i))"

definition updateBullets :: "real \<Rightarrow> maze \<Rightarrow> bullet list \<Rightarrow> jumper list \<Rightarrow>
                             (bullet list \<times> jumper list) option" where
  "updateBullets r m bullets jumpers = bulletLoop r m bullets jumpers (length bullets)"

text \<open>The hit conditions of the two enemy loops, named for the proofs.\<close>

definition knifeLegal :: "vec3 \<Rightarrow> jumper \<Rightarrow> bool" where
  "knifeLegal p j \<longleftrightarrow> inSameLane p j \<and> distanceTo p (position j) < KNIFE_RANGE"

definition bulletLegal :: "vec3 \<Rightarrow> jumper \<Rightarrow> bool" where
  "bulletLegal q j \<longleftrightarrow> inSameLane q j \<and> distanceTo q (position j) < 0.7"

text \<open>The agent of the long row of \<open>demoMaze\<close> in mid-hop, at the player's height.\<close>

definition hoppingJumper :: jumper where
  "hoppingJumper = demoJumper\<lparr>position := \<lparr>vx = - 0.5, vy = 1.5, vz = 0\<rparr>\<rparr>"

text \<open>
  More agents for concrete runs: the agent \<open>createJumpers\<close> builds for the long column
  of \<open>demoMaze\<close>, and the agent of the long row at two other places of its row.
\<close>

definition columnJumper :: jumper where
  "columnJumper = makeJumper (newCorridor Vertical 1 16 28) 0"

definition farJumper :: jumper where
  "farJumper = demoJumper\<lparr>position := \<lparr>vx = - 5, vy = 0.8, vz = 0\<rparr>\<rparr>"

definition closeJumper :: jumper where
  "closeJumper = demoJumper\<lparr>position := \<lparr>vx = 0, vy = 0.8, vz = 0\<rparr>\<rparr>"

section \<open>Maze generator\<close>

text \<open>
  \<open>generateMaze\<close> without the ground plane and the wall meshes. The values that
  \<open>Math.random()\<close> returns are the stream \<open>rnd\<close>: \<open>rnd k\<close> is the value of call number
  \<open>k\<close>, and the functions below carry the number of calls made so far.

  \<open>maze[x][y] = v\<close> is \<open>setCell\<close>. Every write of the generator has its indices inside
  the 30 by 30 grid (the bounds test of \<open>getNeighbors\<close>, the range of the noise pass, its
  \<open>x + 1 < MAZE_SIZE - 1\<close> guards, the constants of the exit block, the bounds test of the
  pickup block), where \<open>list_update\<close> is the array write.
\<close>

definition setCell :: "maze \<Rightarrow> int \<Rightarrow> int \<Rightarrow> nat \<Rightarrow> maze" where
  "setCell m cx cy v = m[nat cx := (m ! nat cx)[nat cy := v]]"

definition wallGrid :: maze where
  "wallGrid = replicate (nat MAZE_SIZE) (replicate (nat MAZE_SIZE) 1)"

definition directions :: "(int \<times> int) list" where
  "directions = [(0, 2), (2, 0), (0, -2), (-2, 0)]"

text \<open>
  \<open>getNeighbors(x, y)\<close>: the unvisited cells two steps away, inside the border, each
  with the wall cell between. \<open>visited\<close> is the set of keys \<open>"x,y"\<close>.
\<close>

definition getNeighbors :: "(int \<times> int) set \<Rightarrow> int \<Rightarrow> int \<Rightarrow> (int \<times> int \<times> int \<times> int) list" where
  "getNeighbors visited cx cy =
     concat (map (\<lambda>(dx, dy).
                    let nx = cx + dx; ny = cy + dy
                    in if nx \<ge> 1 \<and> nx < MAZE_SIZE - 1 \<and> ny \<ge> 1 \<and> ny < MAZE_SIZE - 1
                       then (if (nx, ny) \<notin> visited then [(nx, ny, cx + dx div 2, cy + dy div 2)] else [])
                       else [])
                 directions)"

text \<open>
  The \<open>while (true)\<close> loop of the recursive backtracking. The stack is a list with its
  top at the head. \<open>neighbors[Math.floor(Math.random() * neighbors.length)]\<close> outside the
  array is \<open>undefined\<close>, and destructuring it throws: that is \<open>None\<close>. The result is the
  maze and the number of random values drawn.
\<close>

function carve :: "(nat \<Rightarrow> real) \<Rightarrow> nat \<Rightarrow> maze \<Rightarrow> (int \<times> int) set \<Rightarrow> (int \<times> int) list \<Rightarrow>
                   int \<times> int \<Rightarrow> (maze \<times> nat) option" where
  "carve rnd k m visited stack current =
     (let neighbors = getNeighbors visited (fst current) (snd current)
      in if length neighbors > 0 then
           (let idx = \<lfloor>rnd k * real (length neighbors)\<rfloor>
            in if 0 \<le> idx \<and> idx < int (length neighbors) then
                 (case neighbors ! nat idx of
                    (nx, ny, wallX, wallY) \<Rightarrow>
                      carve rnd (Suc k) (setCell (setCell m wallX wallY 0) nx ny 0)
                        (insert (nx, ny) visited) (current # stack) (nx, ny))
               else None)
         else if length stack > 0 then carve rnd k m visited (tl stack) (hd stack)
         else Some (m, k))"
  by pat_completeness auto

text \<open>The cells the carving can visit: those inside the border.\<close>

definition inner :: "(int \<times> int) set" where
  "inner = {1 .. MAZE_SIZE - 2} \<times> {1 .. MAZE_SIZE - 2}"

termination carve
proof (relation "inv_image (less_than <*lex*> less_than)
                   (\<lambda>(rnd, k, m, visited, stack, current). (card (inner - visited), length stack))",
       goal_cases)
  case 1
  show ?case by auto
next
  case (2 rnd k m visited stack current neighbors idx nx rest ny rest2 wallX wallY)
  then have "(nx, ny, wallX, wallY) \<in> set (getNeighbors visited (fst current) (snd current))"
    by (metis nth_mem nat_less_iff nat_int)
  then have fresh: "(nx, ny) \<in> inner - visited"
    by (auto simp: getNeighbors_def directions_def inner_def Let_def split: if_splits)
  have "finite (inner - visited)" by (simp add: inner_def)
  with fresh have "card (inner - visited - {(nx, ny)}) < card (inner - visited)"
    by (intro card_Diff1_less) auto
  moreover have "inner - insert (nx, ny) visited = inner - visited - {(nx, ny)}" by auto
  ultimately show ?case by simp
next
  case (3 rnd k m visited stack current neighbors)
  then show ?case by (cases stack) simp_all
qed

declare carve.simps [simp del]

text \<open>
  "Add some random dead ends and false paths": \<open>n\<close> attempts are left. An attempt draws
  \<open>x\<close> and \<open>y\<close> in \<open>2 .. MAZE_SIZE - 3\<close>; on a wall cell it opens the cell, then draws
  twice more and may open the cell at \<open>x + 1\<close> and the cell at \<open>y + 1\<close>. \<open>None\<close> is the
  TypeError of \<open>maze[x][y]\<close> for a row that does not exist.
\<close>

fun noisePass :: "(nat \<Rightarrow> real) \<Rightarrow> nat \<Rightarrow> maze \<Rightarrow> nat \<Rightarrow> (maze \<times> nat) option" where
  "noisePass rnd k m 0 = Some (m, k)"
| "noisePass rnd k m (Suc n) =
     (let cx = \<lfloor>rnd k * real_of_int (MAZE_SIZE - 4)\<rfloor> + 2;
          cy = \<lfloor>rnd (k + 1) * real_of_int (MAZE_SIZE - 4)\<rfloor> + 2
      in case wallCell m cx cy of
           None \<Rightarrow> None
         | Some True \<Rightarrow>
             (let m1 = setCell m cx cy 0;
                  m2 = (if rnd (k + 2) > 0.5 \<and> cx + 1 < MAZE_SIZE - 1 then setCell m1 (cx + 1) cy 0 else m1);
                  m3 = (if rnd (k + 3) > 0.5 \<and> cy + 1 < MAZE_SIZE - 1 then setCell m2 cx (cy + 1) 0 else m2)
              in noisePass rnd (k + 4) m3 n)
         | Some False \<Rightarrow> noisePass rnd (k + 2) m n)"

text \<open>"Ensure path to exit exists - clear final area".\<close>

definition clearExit :: "maze \<Rightarrow> maze" where
  "clearExit m =
     setCell (setCell (setCell (setCell m (MAZE_SIZE - 2) (MAZE_SIZE - 2) 0)
                                 (MAZE_SIZE - 2) (MAZE_SIZE - 3) 0)
                       (MAZE_SIZE - 3) (MAZE_SIZE - 2) 0)
             (MAZE_SIZE - 3) (MAZE_SIZE - 3) 0"

text \<open>
  "Clear pistol pickup area": the 3 by 3 block around the grid cell of the world point
  \<open>(-6, 3)\<close>, each cell under the bounds test.
\<close>

definition clearPickup :: "maze \<Rightarrow> maze" where
  "clearPickup m =
     (let pistolMazeX = \<lfloor>- 6 + real_of_int MAZE_SIZE / 2\<rfloor>;
          pistolMazeZ = \<lfloor>3 + real_of_int MAZE_SIZE / 2\<rfloor>
      in foldl (\<lambda>acc (dx, dz).
                  let cx = pistolMazeX + dx; cz = pistolMazeZ + dz
                  in if cx \<ge> 0 \<and> cx < MAZE_SIZE \<and> cz \<ge> 0 \<and> cz < MAZE_SIZE
                     then setCell acc cx cz 0 else acc)
               m
               [(dx, dz). dx \<leftarrow> [-1, 0, 1], dz \<leftarrow> [-1, 0, 1]])"

text \<open>
  \<open>generateMaze\<close>: all walls, the carving from the entrance \<open>(1, 1)\<close>, the 15 attempts of
  the noise pass, the exit block, the pickup block.
\<close>

definition generateMaze :: "(nat \<Rightarrow> real) \<Rightarrow> maze option" where
  "generateMaze rnd =
     (case carve rnd 0 (setCell wallGrid 1 1 0) {(1, 1)} [] (1, 1) of
        None \<Rightarrow> None
      | Some (carved, k) \<Rightarrow>
          (case noisePass rnd k carved 15 of
             None \<Rightarrow> None
           | Some (noisy, k') \<Rightarrow> Some (clearPickup (clearExit noisy))))"

text \<open>
  The cells a flood fill from the entrance reaches: the entrance if it is a path cell,
  and every path cell next to a reached cell on one of its four sides.
\<close>

inductive_set floodFill :: "maze \<Rightarrow> (int \<times> int) set" for m :: maze where
  entrance: "pathCell m 1 1 = Some True \<Longrightarrow> (1, 1) \<in> floodFill m"
| spread: "(cx, cy) \<in> floodFill m \<Longrightarrow>
           (nx, ny) \<in> {(cx + 1, cy), (cx - 1, cy), (cx, cy + 1), (cx, cy - 1)} \<Longrightarrow>
           pathCell m nx ny = Some True \<Longrightarrow> (nx, ny) \<in> floodFill m"

text \<open>
  A run of \<open>Math.random()\<close>: \<open>0\<close> and \<open>1/2\<close> in turn, except calls 195 and 196, the
  first two after the 195 calls of the carving, which make the noise pass pick the cell
  \<open>(10, 4)\<close>.
\<close>

definition isolatingRandoms :: "nat \<Rightarrow> real" where
  "isolatingRandoms k = (if k = 195 then 1 / 3 else if k = 196 then 1 / 10
                         else if even k then 0 else 1 / 2)"

text \<open>
  One pass through the body of the carving loop, as a step on the loop's variables
  (\<open>Running\<close>) that ends in the loop's result (\<open>Done\<close>). Iterating it is how a concrete run
  of \<open>carve\<close> is evaluated.
\<close>

datatype carve_state =
    Running nat maze "(int \<times> int) set" "(int \<times> int) list" "int \<times> int"
  | Done "(maze \<times> nat) option"

fun carveStep :: "(nat \<Rightarrow> real) \<Rightarrow> carve_state \<Rightarrow> carve_state" where
  "carveStep rnd (Done r) = Done r"
| "carveStep rnd (Running k m visited stack current) =
     (let neighbors = getNeighbors visited (fst current) (snd current)
      in if length neighbors > 0 then
           (let idx = \<lfloor>rnd k * real (length neighbors)\<rfloor>
            in if 0 \<le> idx \<and> idx < int (length neighbors) then
                 (case neighbors ! nat idx of
                    (nx, ny, wallX, wallY) \<Rightarrow>
                      Running (Suc k) (setCell (setCell m wallX wallY 0) nx ny 0)
                        (insert (nx, ny) visited) (current # stack) (nx, ny))
               else Done None)
         else if length stack > 0 then Running k m visited (tl stack) (hd stack)
         else Done (Some (m, k)))"

section \<open>Boundary solidity\<close>

text \<open>
  C8. A world position whose grid coordinate \<open>floor(p + MAZE_SIZE/2)\<close> lies outside
  \<open>[0, MAZE_SIZE)\<close> on either axis is reported as wall by both collision queries, for
  every maze array (even a malformed one) and every body radius: the answer is
  \<open>Some True\<close>, so the query neither throws nor reports an open cell.
\<close>

theorem out_of_bounds_is_wall:
  assumes "\<lfloor>vx p + real_of_int MAZE_SIZE / 2\<rfloor> < 0
           \<or> \<lfloor>vx p + real_of_int MAZE_SIZE / 2\<rfloor> \<ge> MAZE_SIZE
           \<or> \<lfloor>vz p + real_of_int MAZE_SIZE / 2\<rfloor> < 0
           \<or> \<lfloor>vz p + real_of_int MAZE_SIZE / 2\<rfloor> \<ge> MAZE_SIZE"
  shows "isWallAt r m p = Some True \<and> isWallAtZombie m p = Some True"
  using assms by (simp add: isWallAt_def isWallAtZombie_def outOfGrid_def Let_def)

theorem out_of_bounds_is_wall_witness:
  "\<lfloor>vx \<lparr>vx = 15, vy = 1.5, vz = 0\<rparr> + real_of_int MAZE_SIZE / 2\<rfloor> \<ge> MAZE_SIZE
   \<and> isWallAt playerRadius_basic [] \<lparr>vx = 15, vy = 1.5, vz = 0\<rparr> = Some True
   \<and> isWallAtZombie [] \<lparr>vx = 15, vy = 1.5, vz = 0\<rparr> = Some True"
  using out_of_bounds_is_wall [of "\<lparr>vx = 15, vy = 1.5, vz = 0\<rparr>" playerRadius_basic "[]"]
  by (simp add: MAZE_SIZE_def)


section \<open>Player collision resolution\<close>

lemma wallCell_defined:
  "0 \<le> cx \<Longrightarrow> cx < int (length m) \<Longrightarrow> wallCell m cx cz \<noteq> None"
  by (auto simp: wallCell_def)

lemma checkPoints_defined:
  "MAZE_SIZE \<le> int (length m) \<Longrightarrow> checkPoints m pts \<noteq> None"
proof (induction pts)
  case Nil
  then show ?case by simp
next
  case (Cons pt pts)
  obtain px pz where pt: "pt = (px, pz)" by (cases pt)
  show ?case
  proof (cases "outOfGrid \<lfloor>px\<rfloor> \<lfloor>pz\<rfloor>")
    case True
    then show ?thesis by (simp add: pt)
  next
    case False
    with Cons.prems have "wallCell m \<lfloor>px\<rfloor> \<lfloor>pz\<rfloor> \<noteq> None"
      by (intro wallCell_defined) (auto simp: outOfGrid_def)
    with False Cons show ?thesis
      by (auto simp: pt split: option.splits bool.splits)
  qed
qed

lemma isWallAt_defined:
  assumes "MAZE_SIZE \<le> int (length m)"
  shows "isWallAt r m p \<noteq> None"
proof (cases "outOfGrid \<lfloor>vx p + real_of_int MAZE_SIZE / 2\<rfloor> \<lfloor>vz p + real_of_int MAZE_SIZE / 2\<rfloor>")
  case True
  then show ?thesis by (simp add: isWallAt_def)
next
  case False
  with assms have "wallCell m \<lfloor>vx p + real_of_int MAZE_SIZE / 2\<rfloor> \<lfloor>vz p + real_of_int MAZE_SIZE / 2\<rfloor> \<noteq> None"
    by (intro wallCell_defined) (auto simp: outOfGrid_def)
  with False checkPoints_defined [OF assms] show ?thesis
    by (simp add: isWallAt_def Let_def del: checkPoints.simps split: option.splits bool.splits)
qed

lemma isWallAt_cases:
  assumes "MAZE_SIZE \<le> int (length m)"
  shows "isWallAt r m p = Some (blocksPlayer r m p)"
  using isWallAt_defined [OF assms, of r p] by (cases "isWallAt r m p") (auto simp: blocksPlayer_def)

lemma blocksPlayer_xz:
  "vx p = vx q \<Longrightarrow> vz p = vz q \<Longrightarrow> blocksPlayer r m p = blocksPlayer r m q"
  by (simp add: blocksPlayer_def isWallAt_def Let_def cong: option.case_cong bool.case_cong)

lemma microLoop_find:
  assumes "MAZE_SIZE \<le> int (length m)"
  shows "microLoop r m pos dirs =
         Some (case find (\<lambda>d. \<not> blocksPlayer r m (addv pos d)) dirs of
                 None \<Rightarrow> pos | Some d \<Rightarrow> addv pos d)"
  by (induction dirs) (simp_all add: isWallAt_cases [OF assms])

lemma find_microDirections:
  "find P microDirections =
     map_option (\<lambda>d. \<lparr>vx = fst d, vy = 0, vz = snd d\<rparr>)
       (find (\<lambda>d. P \<lparr>vx = fst d, vy = 0, vz = snd d\<rparr>)
          [(0.005, 0), (- 0.005, 0), (0, 0.005), (0, - 0.005),
           (0.005, 0.005), (- 0.005, 0.005), (0.005, - 0.005), (- 0.005, - 0.005)])"
  by (simp add: microDirections_def microDistance_def)

text \<open>
  C9. On a maze array that has its \<open>MAZE_SIZE\<close> rows, the position update of the player
  never throws and is this ordered fallback, each position tested with the thick-body
  test \<open>isWallAt\<close>: no move when the speed is at most \<open>0.001\<close>; else the full candidate
  \<open>position + velocity\<close> if it is not blocked; else the X-only slide; else the Z-only
  slide; else the first unblocked of the eight micro-displacements of \<open>0.005\<close>, tried in
  the order right, left, forward, back and then the four diagonals; and when all eight
  are blocked too, the position is unchanged.
\<close>

theorem movePlayer_fallback_order:
  assumes "MAZE_SIZE \<le> int (length m)"
  shows "movePlayer r m pos vel =
         Some (let full = \<lparr>vx = vx pos + vx vel, vy = vy pos + vy vel, vz = vz pos + vz vel\<rparr>
               in if \<not> sqrt (vx vel * vx vel + vy vel * vy vel + vz vel * vz vel) > 0.001 then pos
                  else if isWallAt r m full \<noteq> Some True then full
                  else if isWallAt r m (pos\<lparr>vx := vx pos + vx vel\<rparr>) \<noteq> Some True
                    then pos\<lparr>vx := vx pos + vx vel\<rparr>
                  else if isWallAt r m (pos\<lparr>vz := vz pos + vz vel\<rparr>) \<noteq> Some True
                    then pos\<lparr>vz := vz pos + vz vel\<rparr>
                  else (case find (\<lambda>d. isWallAt r m \<lparr>vx = vx pos + fst d, vy = vy pos, vz = vz pos + snd d\<rparr>
                                        \<noteq> Some True)
                              [(0.005, 0), (- 0.005, 0), (0, 0.005), (0, - 0.005),
                               (0.005, 0.005), (- 0.005, 0.005), (0.005, - 0.005), (- 0.005, - 0.005)] of
                          None \<Rightarrow> pos
                        | Some d \<Rightarrow> \<lparr>vx = vx pos + fst d, vy = vy pos, vz = vz pos + snd d\<rparr>))"
proof -
  have same: "blocksPlayer r m (pos\<lparr>vx := vx (addv pos vel), vz := vz (addv pos vel)\<rparr>)
              = blocksPlayer r m (addv pos vel)"
    by (rule blocksPlayer_xz) simp_all
  have base: "movePlayer r m pos vel =
         Some (if \<not> vlength vel > 0.001 then pos
               else if \<not> blocksPlayer r m (addv pos vel) then addv pos vel
               else if \<not> blocksPlayer r m (pos\<lparr>vx := vx (addv pos vel)\<rparr>)
                 then pos\<lparr>vx := vx (addv pos vel)\<rparr>
               else if \<not> blocksPlayer r m (pos\<lparr>vz := vz (addv pos vel)\<rparr>)
                 then pos\<lparr>vz := vz (addv pos vel)\<rparr>
               else (case find (\<lambda>d. \<not> blocksPlayer r m (addv pos d)) microDirections of
                       None \<Rightarrow> pos
                     | Some d \<Rightarrow> addv pos d))"
    by (simp add: movePlayer_def Let_def isWallAt_cases [OF assms] microLoop_find [OF assms] same)
  have micro: "(case find (\<lambda>d. \<not> blocksPlayer r m (addv pos d)) microDirections of
                  None \<Rightarrow> pos | Some d \<Rightarrow> addv pos d)
               = (case find (\<lambda>d. isWallAt r m \<lparr>vx = vx pos + fst d, vy = vy pos, vz = vz pos + snd d\<rparr>
                                     \<noteq> Some True)
                           [(0.005, 0), (- 0.005, 0), (0, 0.005), (0, - 0.005),
                            (0.005, 0.005), (- 0.005, 0.005), (0.005, - 0.005), (- 0.005, - 0.005)] of
                       None \<Rightarrow> pos
                     | Some d \<Rightarrow> \<lparr>vx = vx pos + fst d, vy = vy pos, vz = vz pos + snd d\<rparr>)"
    unfolding find_microDirections
    by (simp add: blocksPlayer_def addv_def option.case_eq_if option.map_sel)
  show ?thesis
    unfolding base micro by (simp add: blocksPlayer_def addv_def vlength_def Let_def)
qed

lemma vlength_gt:
  "c * c < vx a * vx a + vy a * vy a + vz a * vz a \<Longrightarrow> c < vlength a"
  unfolding vlength_def by (rule real_less_rsqrt) (simp add: power2_eq_square)

lemma vlength_lt:
  "0 \<le> c \<Longrightarrow> vx a * vx a + vy a * vy a + vz a * vz a < c * c \<Longrightarrow> vlength a < c"
  unfolding vlength_def by (rule real_less_lsqrt) (simp_all add: power2_eq_square)

lemma vlength_ge:
  "0 \<le> c \<Longrightarrow> c * c \<le> vx a * vx a + vy a * vy a + vz a * vz a \<Longrightarrow> c \<le> vlength a"
  unfolding vlength_def by (rule real_le_rsqrt) (simp add: power2_eq_square)

lemma demoMaze_rows: "MAZE_SIZE \<le> int (length demoMaze)"
  by (simp add: demoMaze_def MAZE_SIZE_def)

text \<open>
  Five runs in \<open>demoMaze\<close> with body radius 0.25. In the middle of the row the full
  move is free. At world \<open>(0.7, 0.7)\<close> in the crossing a diagonal push is blocked by the
  wall cell \<open>(15, 16)\<close> and the X-only slide is taken. At \<open>(1.7, 2.5)\<close> in the column the
  full move and the X-only slide are blocked and the Z-only slide is taken. In the
  corner at the right end of the row, at \<open>(13.748, 0.74)\<close>, the full move and both slides
  are blocked and so is the first micro-displacement (right); the second (left) is free
  and is taken. Inside the wall cell \<open>(15, 17)\<close> every one of the eleven tests is blocked
  and the position stays as it was.
\<close>

theorem movePlayer_fallback_order_witness:
  "MAZE_SIZE \<le> int (length demoMaze)
   \<and> movePlayer playerRadius_basic demoMaze
        \<lparr>vx = 0.5, vy = 1.5, vz = 0.5\<rparr> \<lparr>vx = 0.08, vy = 0, vz = 0\<rparr>
       = Some \<lparr>vx = 0.58, vy = 1.5, vz = 0.5\<rparr>
   \<and> movePlayer playerRadius_basic demoMaze
        \<lparr>vx = 0.7, vy = 1.5, vz = 0.7\<rparr> \<lparr>vx = 0.08, vy = 0, vz = 0.08\<rparr>
       = Some \<lparr>vx = 0.78, vy = 1.5, vz = 0.7\<rparr>
   \<and> movePlayer playerRadius_basic demoMaze
        \<lparr>vx = 1.7, vy = 1.5, vz = 2.5\<rparr> \<lparr>vx = 0.08, vy = 0, vz = 0.08\<rparr>
       = Some \<lparr>vx = 1.7, vy = 1.5, vz = 2.58\<rparr>
   \<and> movePlayer playerRadius_basic demoMaze
        \<lparr>vx = 13.748, vy = 1.5, vz = 0.74\<rparr> \<lparr>vx = 0.05, vy = 0, vz = 0.05\<rparr>
       = Some \<lparr>vx = 13.743, vy = 1.5, vz = 0.74\<rparr>
   \<and> movePlayer playerRadius_basic demoMaze
        \<lparr>vx = 0.5, vy = 1.5, vz = 2.5\<rparr> \<lparr>vx = 0.05, vy = 0, vz = 0.05\<rparr>
       = Some \<lparr>vx = 0.5, vy = 1.5, vz = 2.5\<rparr>"
proof -
  have vl: "vlength \<lparr>vx = 0.08, vy = 0, vz = 0\<rparr> > 0.001" "vlength \<lparr>vx = 0.08, vy = 0, vz = 0.08\<rparr> > 0.001" "vlength \<lparr>vx = 0.05, vy = 0, vz = 0.05\<rparr> > 0.001"
    by (rule vlength_gt, simp)+
  have r1: "movePlayer playerRadius_basic demoMaze
        \<lparr>vx = 0.5, vy = 1.5, vz = 0.5\<rparr> \<lparr>vx = 0.08, vy = 0, vz = 0\<rparr>
       = Some \<lparr>vx = 0.58, vy = 1.5, vz = 0.5\<rparr>"
    using movePlayer_fallback_order [OF demoMaze_rows, of playerRadius_basic
            "\<lparr>vx = 0.5, vy = 1.5, vz = 0.5\<rparr>" "\<lparr>vx = 0.08, vy = 0, vz = 0\<rparr>"]
          vl
    by (simp add: isWallAt_def playerRadius_basic_def MAZE_SIZE_def outOfGrid_def wallCell_def demoMaze_def Let_def addv_def vlength_def)
  have r2: "movePlayer playerRadius_basic demoMaze
        \<lparr>vx = 0.7, vy = 1.5, vz = 0.7\<rparr> \<lparr>vx = 0.08, vy = 0, vz = 0.08\<rparr>
       = Some \<lparr>vx = 0.78, vy = 1.5, vz = 0.7\<rparr>"
    using movePlayer_fallback_order [OF demoMaze_rows, of playerRadius_basic
            "\<lparr>vx = 0.7, vy = 1.5, vz = 0.7\<rparr>" "\<lparr>vx = 0.08, vy = 0, vz = 0.08\<rparr>"]
          vl
    by (simp add: isWallAt_def playerRadius_basic_def MAZE_SIZE_def outOfGrid_def wallCell_def demoMaze_def Let_def addv_def vlength_def)
  have r3: "movePlayer playerRadius_basic demoMaze
        \<lparr>vx = 1.7, vy = 1.5, vz = 2.5\<rparr> \<lparr>vx = 0.08, vy = 0, vz = 0.08\<rparr>
       = Some \<lparr>vx = 1.7, vy = 1.5, vz = 2.58\<rparr>"
    using movePlayer_fallback_order [OF demoMaze_rows, of playerRadius_basic
            "\<lparr>vx = 1.7, vy = 1.5, vz = 2.5\<rparr>" "\<lparr>vx = 0.08, vy = 0, vz = 0.08\<rparr>"]
          vl
    by (simp add: isWallAt_def playerRadius_basic_def MAZE_SIZE_def outOfGrid_def wallCell_def demoMaze_def Let_def addv_def vlength_def)
  have r4: "movePlayer playerRadius_basic demoMaze
        \<lparr>vx = 13.748, vy = 1.5, vz = 0.74\<rparr> \<lparr>vx = 0.05, vy = 0, vz = 0.05\<rparr>
       = Some \<lparr>vx = 13.743, vy = 1.5, vz = 0.74\<rparr>"
    using movePlayer_fallback_order [OF demoMaze_rows, of playerRadius_basic
            "\<lparr>vx = 13.748, vy = 1.5, vz = 0.74\<rparr>" "\<lparr>vx = 0.05, vy = 0, vz = 0.05\<rparr>"]
          vl
    by (simp add: isWallAt_def playerRadius_basic_def MAZE_SIZE_def outOfGrid_def wallCell_def demoMaze_def Let_def addv_def vlength_def)
  have r5: "movePlayer playerRadius_basic demoMaze
        \<lparr>vx = 0.5, vy = 1.5, vz = 2.5\<rparr> \<lparr>vx = 0.05, vy = 0, vz = 0.05\<rparr>
       = Some \<lparr>vx = 0.5, vy = 1.5, vz = 2.5\<rparr>"
    using movePlayer_fallback_order [OF demoMaze_rows, of playerRadius_basic
            "\<lparr>vx = 0.5, vy = 1.5, vz = 2.5\<rparr>" "\<lparr>vx = 0.05, vy = 0, vz = 0.05\<rparr>"]
          vl
    by (simp add: isWallAt_def playerRadius_basic_def MAZE_SIZE_def outOfGrid_def wallCell_def demoMaze_def Let_def addv_def vlength_def)
  from demoMaze_rows r1 r2 r3 r4 r5 show ?thesis by simp
qed

section \<open>Agents: shared lemmas\<close>

lemma vlength_axis_x: "vlength \<lparr>vx = a, vy = 0, vz = 0\<rparr> = \<bar>a\<bar>"
  by (simp add: vlength_def)

lemma vlength_axis_z: "vlength \<lparr>vx = 0, vy = 0, vz = a\<rparr> = \<bar>a\<bar>"
  by (simp add: vlength_def)

lemma normalize_unit_x: "\<bar>a\<bar> = 1 \<Longrightarrow> normalize \<lparr>vx = a, vy = 0, vz = 0\<rparr> = \<lparr>vx = a, vy = 0, vz = 0\<rparr>"
  by (simp add: normalize_def vlength_axis_x multiplyScalar_def)

lemma normalize_unit_z: "\<bar>a\<bar> = 1 \<Longrightarrow> normalize \<lparr>vx = 0, vy = 0, vz = a\<rparr> = \<lparr>vx = 0, vy = 0, vz = a\<rparr>"
  by (simp add: normalize_def vlength_axis_z multiplyScalar_def)

lemma updateJumperState_basic_eq:
  "gameMode \<noteq> Survival \<Longrightarrow> updateJumperState gameMode p j = updateJumperState_basic p j"
  by (simp add: updateJumperState_def updateJumperState_basic_def Let_def)

lemma chooseTarget_basic_eq:
  "gameMode \<noteq> Survival \<Longrightarrow> chooseTarget gameMode p j = chooseTarget_basic p j"
  by (simp add: chooseTarget_def chooseTarget_basic_def)

lemma moveJumper_basic_eq:
  "gameMode \<noteq> Survival \<Longrightarrow> moveJumper gameMode m p j = Some (moveJumper_basic p j)"
  by (simp add: moveJumper_def moveJumper_basic_def chooseTarget_basic_eq Let_def)

lemma stepJumper_basic_eq:
  "gameMode \<noteq> Survival \<Longrightarrow> stepJumper gameMode m p j = Some (stepJumper_basic p j)"
  by (simp add: stepJumper_def stepJumper_basic_def moveJumper_basic_eq updateJumperState_basic_eq)

text \<open>What each stage of the movement loop leaves as it was.\<close>

lemma patrolTarget_keeps:
  "position (fst (patrolTarget j)) = position j"
  "state (fst (patrolTarget j)) = state j"
  "laneInfo (fst (patrolTarget j)) = laneInfo j"
  "patrolAxis (fst (patrolTarget j)) = patrolAxis j"
  "patrolMin (fst (patrolTarget j)) = patrolMin j"
  "patrolMax (fst (patrolTarget j)) = patrolMax j"
  "globalChase (fst (patrolTarget j)) = globalChase j"
  "baseY (fst (patrolTarget j)) = baseY j"
  by (simp_all add: patrolTarget_def Let_def)

lemma huntTarget_keeps: "fst (huntTarget p j) = j"
  by (simp add: huntTarget_def)

lemma survivalTarget_keeps:
  "position (fst (survivalTarget p j)) = position j"
  "state (fst (survivalTarget p j)) = state j"
  "laneInfo (fst (survivalTarget p j)) = laneInfo j"
  "patrolMin (fst (survivalTarget p j)) = patrolMin j"
  "patrolMax (fst (survivalTarget p j)) = patrolMax j"
  "globalChase (fst (survivalTarget p j)) = globalChase j"
  "baseY (fst (survivalTarget p j)) = baseY j"
  by (simp_all add: survivalTarget_def Let_def)

lemma chooseTarget_keeps:
  "position (fst (chooseTarget g p j)) = position j"
  "state (fst (chooseTarget g p j)) = state j"
  "laneInfo (fst (chooseTarget g p j)) = laneInfo j"
  "patrolMin (fst (chooseTarget g p j)) = patrolMin j"
  "patrolMax (fst (chooseTarget g p j)) = patrolMax j"
  "globalChase (fst (chooseTarget g p j)) = globalChase j"
  "baseY (fst (chooseTarget g p j)) = baseY j"
  by (cases "state j"; simp add: chooseTarget_def patrolTarget_keeps huntTarget_keeps survivalTarget_keeps)+

lemma chooseTarget_basic_keeps:
  "position (fst (chooseTarget_basic p j)) = position j"
  "state (fst (chooseTarget_basic p j)) = state j"
  "laneInfo (fst (chooseTarget_basic p j)) = laneInfo j"
  "patrolAxis (fst (chooseTarget_basic p j)) = patrolAxis j"
  "patrolMin (fst (chooseTarget_basic p j)) = patrolMin j"
  "patrolMax (fst (chooseTarget_basic p j)) = patrolMax j"
  "globalChase (fst (chooseTarget_basic p j)) = globalChase j"
  "baseY (fst (chooseTarget_basic p j)) = baseY j"
  by (cases "state j"; simp add: chooseTarget_basic_def patrolTarget_keeps huntTarget_keeps)+

lemma turnTo_keeps:
  "position (turnTo t j) = position j"
  "state (turnTo t j) = state j"
  "laneInfo (turnTo t j) = laneInfo j"
  "patrolAxis (turnTo t j) = patrolAxis j"
  "patrolMin (turnTo t j) = patrolMin j"
  "patrolMax (turnTo t j) = patrolMax j"
  "globalChase (turnTo t j) = globalChase j"
  "baseY (turnTo t j) = baseY j"
  by (simp_all add: turnTo_def)

lemma writeBack_keeps:
  "state (writeBack h j np) = state j"
  "laneInfo (writeBack h j np) = laneInfo j"
  "patrolAxis (writeBack h j np) = patrolAxis j"
  "patrolMin (writeBack h j np) = patrolMin j"
  "patrolMax (writeBack h j np) = patrolMax j"
  "globalChase (writeBack h j np) = globalChase j"
  "vx (position (writeBack h j np)) = vx np"
  "vz (position (writeBack h j np)) = vz np"
  by (simp_all add: writeBack_def Let_def)

lemmas keeps = chooseTarget_basic_keeps chooseTarget_keeps turnTo_keeps writeBack_keeps

lemma moveJumper_basic_keeps:
  "state (moveJumper_basic p j) = state j"
  "laneInfo (moveJumper_basic p j) = laneInfo j"
  "patrolAxis (moveJumper_basic p j) = patrolAxis j"
  "patrolMin (moveJumper_basic p j) = patrolMin j"
  "patrolMax (moveJumper_basic p j) = patrolMax j"
  "globalChase (moveJumper_basic p j) = globalChase j"
  by (simp_all add: moveJumper_basic_def Let_def keeps)

lemma demoJumper_fields:
  "position demoJumper = \<lparr>vx = - 0.5, vy = 0.8, vz = 0\<rparr>"
  "state demoJumper = Hopping"
  "laneInfo demoJumper = \<lparr>xMin = - 13.5, xMax = 12.5, zMin = - 0.5, zMax = 0.5, axis = AxisX, fixedCoord = 0\<rparr>"
  "patrolAxis demoJumper = AxisX"
  "patrolMin demoJumper = - 13"
  "patrolMax demoJumper = 12"
  "globalChase demoJumper = False"
  by (simp_all add: demoJumper_def makeJumper_def newCorridor_def MAZE_SIZE_def Let_def)

lemma hunt_chase_position:
  assumes "state j = Chasing"
  shows "stepAhead s (turnTo (snd (chooseTarget_basic p (j\<lparr>jumpPhase := ph\<rparr>)))
                             (fst (chooseTarget_basic p (j\<lparr>jumpPhase := ph\<rparr>))))
         = (if patrolAxis j = AxisX
            then (position j)\<lparr>vx := vx (position j) + (if vx p > vx (position j) then s else - s)\<rparr>
            else (position j)\<lparr>vz := vz (position j) + (if vz p > vz (position j) then s else - s)\<rparr>)"
  using assms
  by (simp add: chooseTarget_basic_def huntTarget_def turnTo_def stepAhead_def vlength_axis_x vlength_axis_z
        normalize_unit_x normalize_unit_z addv_def multiplyScalar_def)

lemma alignAndClamp_x:
  "patrolAxis j = AxisX \<Longrightarrow>
     vx (alignAndClamp j np) = max (patrolMin j) (min (patrolMax j)
        (if axis (laneInfo j) = AxisX then vx np else fixedCoord (laneInfo j)))"
  by (simp add: alignAndClamp_def Let_def)

lemma alignAndClamp_z:
  "patrolAxis j \<noteq> AxisX \<Longrightarrow>
     vz (alignAndClamp j np) = max (patrolMin j) (min (patrolMax j)
        (if axis (laneInfo j) = AxisX then fixedCoord (laneInfo j) else vz np))"
  by (simp add: alignAndClamp_def Let_def)

lemma moveJumper_basic_position:
  "vx (position (moveJumper_basic p j)) =
     vx (alignAndClamp j (stepAhead (if state j = Queued then JUMPER_SPEED * 0.7 else JUMPER_SPEED)
           (turnTo (snd (chooseTarget_basic p (j\<lparr>jumpPhase := jumpPhase j + JUMP_FREQUENCY\<rparr>)))
                   (fst (chooseTarget_basic p (j\<lparr>jumpPhase := jumpPhase j + JUMP_FREQUENCY\<rparr>))))))"
  "vz (position (moveJumper_basic p j)) =
     vz (alignAndClamp j (stepAhead (if state j = Queued then JUMPER_SPEED * 0.7 else JUMPER_SPEED)
           (turnTo (snd (chooseTarget_basic p (j\<lparr>jumpPhase := jumpPhase j + JUMP_FREQUENCY\<rparr>)))
                   (fst (chooseTarget_basic p (j\<lparr>jumpPhase := jumpPhase j + JUMP_FREQUENCY\<rparr>))))))"
  by (simp_all add: moveJumper_basic_def Let_def keeps alignAndClamp_def)

lemma pinned_step:
  assumes "patrolMax j \<le> patrolMin j"
  shows "patrolCoord (moveJumper_basic p j) = patrolMin j"
proof (cases "patrolAxis j = AxisX")
  case True
  with assms show ?thesis
    by (simp add: patrolCoord_def moveJumper_basic_keeps moveJumper_basic_position alignAndClamp_x)
next
  case False
  with assms show ?thesis
    by (simp add: patrolCoord_def moveJumper_basic_keeps moveJumper_basic_position alignAndClamp_z)
qed

lemma updateJumperState_basic_keeps:
  "laneInfo (updateJumperState_basic p j) = laneInfo j"
  "patrolAxis (updateJumperState_basic p j) = patrolAxis j"
  "patrolMin (updateJumperState_basic p j) = patrolMin j"
  "patrolMax (updateJumperState_basic p j) = patrolMax j"
  "globalChase (updateJumperState_basic p j) = globalChase j"
  "position (updateJumperState_basic p j) = position j"
  by (simp_all add: updateJumperState_basic_def Let_def)

lemma stepJumper_basic_keeps:
  "laneInfo (stepJumper_basic p j) = laneInfo j"
  "patrolAxis (stepJumper_basic p j) = patrolAxis j"
  "patrolMin (stepJumper_basic p j) = patrolMin j"
  "patrolMax (stepJumper_basic p j) = patrolMax j"
  "globalChase (stepJumper_basic p j) = globalChase j"
  by (simp_all add: stepJumper_basic_def moveJumper_basic_keeps updateJumperState_basic_keeps)

lemma pinned_stepJumper:
  assumes "patrolMax j \<le> patrolMin j"
  shows "patrolCoord (stepJumper_basic p j) = patrolMin j"
  using assms by (simp add: stepJumper_basic_def pinned_step updateJumperState_basic_keeps)

lemma runFrames_basic_eq:
  "gameMode \<noteq> Survival \<Longrightarrow> runFrames gameMode m ps j = Some (runFrames_basic ps j)"
  by (induction ps arbitrary: j) (simp_all add: stepJumper_basic_eq)

lemma runFrames_basic_keeps:
  "patrolMin (runFrames_basic ps j) = patrolMin j \<and> patrolMax (runFrames_basic ps j) = patrolMax j"
  by (induction ps arbitrary: j) (simp_all add: stepJumper_basic_keeps)

lemma runFrames_basic_snoc:
  "runFrames_basic (ps @ [p]) j = stepJumper_basic p (runFrames_basic ps j)"
  by (induction ps arbitrary: j) simp_all

lemma pinned_runFrames:
  assumes "patrolMax j \<le> patrolMin j" and "ps \<noteq> []"
  shows "patrolCoord (runFrames_basic ps j) = patrolMin j"
proof -
  from assms(2) obtain qs q where ps: "ps = qs @ [q]"
    by (metis append_butlast_last_id)
  have "patrolMax (runFrames_basic qs j) \<le> patrolMin (runFrames_basic qs j)"
    using assms(1) by (simp add: runFrames_basic_keeps)
  then have "patrolCoord (stepJumper_basic q (runFrames_basic qs j)) = patrolMin (runFrames_basic qs j)"
    by (rule pinned_stepJumper)
  then show ?thesis by (simp add: ps runFrames_basic_snoc runFrames_basic_keeps)
qed

section \<open>Hunt mode: aggro on lane entry, de-aggro on lane exit\<close>

text \<open>
  C3. Outside survival mode, after the state update of a frame an agent is \<open>chasing\<close>
  exactly when the player is in its lane, tested as the source does: fewer than 1.2 units
  off the lane's fixed coordinate and, along the lane, between the lane's ends widened by
  1.0. A chasing agent whose test fails is \<open>hopping\<close> after the update. The loop of
  \<open>game.js\<close> is the same function, and the movement loop of the frame leaves the state
  as the state update set it.
\<close>

theorem hunt_chasing_iff_in_lane:
  assumes "gameMode \<noteq> Survival"
  shows "let inLane = (if patrolAxis j = AxisX
                       then \<bar>vz p - fixedCoord (laneInfo j)\<bar> < 1.2
                            \<and> xMin (laneInfo j) - 1.0 \<le> vx p \<and> vx p \<le> xMax (laneInfo j) + 1.0
                       else \<bar>vx p - fixedCoord (laneInfo j)\<bar> < 1.2
                            \<and> zMin (laneInfo j) - 1.0 \<le> vz p \<and> vz p \<le> zMax (laneInfo j) + 1.0);
             j' = updateJumperState gameMode p j
         in (state j' = Chasing \<longleftrightarrow> inLane)
            \<and> (state j = Chasing \<and> \<not> inLane \<longrightarrow> state j' = Hopping)
            \<and> updateJumperState_basic p j = j'
            \<and> (\<exists>j''. stepJumper gameMode m p j = Some j'' \<and> state j'' = state j')"
  using assms
  by (auto simp: updateJumperState_basic_eq stepJumper_basic_eq stepJumper_basic_def
        moveJumper_basic_keeps updateJumperState_basic_def playerInLane_def Let_def)

text \<open>
  The agent of the long row of \<open>demoMaze\<close>: the player at \<open>z = 1\<close> is in its lane and
  the patrolling agent starts to chase; at \<open>z = 1.2\<close> the player is out of it and the
  chasing agent goes back to hopping.
\<close>

theorem hunt_chasing_iff_in_lane_witness:
  "Hunt \<noteq> Survival
   \<and> state demoJumper = Hopping
   \<and> state (updateJumperState Hunt \<lparr>vx = 5, vy = 1.5, vz = 1\<rparr> demoJumper) = Chasing
   \<and> state (demoJumper\<lparr>state := Chasing\<rparr>) = Chasing
   \<and> state (updateJumperState Hunt \<lparr>vx = 5, vy = 1.5, vz = 1.2\<rparr> (demoJumper\<lparr>state := Chasing\<rparr>)) = Hopping"
  using hunt_chasing_iff_in_lane [of Hunt demoJumper "\<lparr>vx = 5, vy = 1.5, vz = 1\<rparr>" demoMaze]
        hunt_chasing_iff_in_lane [of Hunt "demoJumper\<lparr>state := Chasing\<rparr>" "\<lparr>vx = 5, vy = 1.5, vz = 1.2\<rparr>" demoMaze]
  by (simp add: demoJumper_fields Let_def)

section \<open>Hunt mode: the chase step is clamped to the patrol bounds\<close>

text \<open>
  C1, as the code has it. Outside survival mode, a chasing agent whose lane axis is its
  patrol axis steps by \<open>JUMPER_SPEED\<close> toward the player's coordinate along that axis,
  and the result is clamped by \<open>Math.max(patrolMin, Math.min(patrolMax, c))\<close>: with
  \<open>patrolMin \<le> patrolMax\<close> the agent's patrol-axis coordinate stays inside
  \<open>[patrolMin, patrolMax]\<close> while it chases. The movement loop of \<open>game.js\<close> is the same
  function.
\<close>

theorem hunt_chase_step_clamped:
  assumes "gameMode \<noteq> Survival" and "state j = Chasing" and "axis (laneInfo j) = patrolAxis j"
  shows "moveJumper gameMode m p j = Some (moveJumper_basic p j)
       \<and> (patrolAxis j = AxisX \<longrightarrow>
            vx (position (moveJumper_basic p j)) =
              max (patrolMin j) (min (patrolMax j)
                (vx (position j) + (if vx p > vx (position j) then JUMPER_SPEED else - JUMPER_SPEED))))
       \<and> (patrolAxis j = AxisZ \<longrightarrow>
            vz (position (moveJumper_basic p j)) =
              max (patrolMin j) (min (patrolMax j)
                (vz (position j) + (if vz p > vz (position j) then JUMPER_SPEED else - JUMPER_SPEED))))
       \<and> (patrolMin j \<le> patrolMax j \<longrightarrow>
            (let c = (if patrolAxis j = AxisX then vx (position (moveJumper_basic p j))
                      else vz (position (moveJumper_basic p j)))
             in patrolMin j \<le> c \<and> c \<le> patrolMax j))"
proof -
  have pos: "patrolAxis j = AxisX \<Longrightarrow> vx (position (moveJumper_basic p j)) =
              max (patrolMin j) (min (patrolMax j)
                (vx (position j) + (if vx p > vx (position j) then JUMPER_SPEED else - JUMPER_SPEED)))"
    using assms(2,3) by (simp add: moveJumper_basic_position hunt_chase_position alignAndClamp_x)
  have posz: "patrolAxis j = AxisZ \<Longrightarrow> vz (position (moveJumper_basic p j)) =
              max (patrolMin j) (min (patrolMax j)
                (vz (position j) + (if vz p > vz (position j) then JUMPER_SPEED else - JUMPER_SPEED)))"
    using assms(2,3) by (simp add: moveJumper_basic_position hunt_chase_position alignAndClamp_z)
  have rng: "patrolMin j \<le> patrolMax j \<Longrightarrow>
            (let c = (if patrolAxis j = AxisX then vx (position (moveJumper_basic p j))
                      else vz (position (moveJumper_basic p j)))
             in patrolMin j \<le> c \<and> c \<le> patrolMax j)"
    by (cases "patrolAxis j") (simp_all add: pos posz Let_def)
  from pos posz rng moveJumper_basic_eq [OF assms(1)] show ?thesis by blast
qed

text \<open>
  The chasing agent at the middle of the long row of \<open>demoMaze\<close>, the player to its
  right: one step of \<open>0.08\<close>, from \<open>-0.5\<close> to \<open>-0.42\<close>.
\<close>

theorem hunt_chase_step_clamped_witness:
  "Hunt \<noteq> Survival
   \<and> state (demoJumper\<lparr>state := Chasing\<rparr>) = Chasing
   \<and> axis (laneInfo (demoJumper\<lparr>state := Chasing\<rparr>)) = patrolAxis (demoJumper\<lparr>state := Chasing\<rparr>)
   \<and> patrolAxis (demoJumper\<lparr>state := Chasing\<rparr>) = AxisX
   \<and> patrolMin (demoJumper\<lparr>state := Chasing\<rparr>) \<le> patrolMax (demoJumper\<lparr>state := Chasing\<rparr>)
   \<and> moveJumper Hunt demoMaze \<lparr>vx = 5, vy = 1.5, vz = 0\<rparr> (demoJumper\<lparr>state := Chasing\<rparr>)
       = Some (moveJumper_basic \<lparr>vx = 5, vy = 1.5, vz = 0\<rparr> (demoJumper\<lparr>state := Chasing\<rparr>))
   \<and> vx (position (moveJumper_basic \<lparr>vx = 5, vy = 1.5, vz = 0\<rparr> (demoJumper\<lparr>state := Chasing\<rparr>))) = - 0.42"
  using hunt_chase_step_clamped [of Hunt "demoJumper\<lparr>state := Chasing\<rparr>" demoMaze "\<lparr>vx = 5, vy = 1.5, vz = 0\<rparr>"]
  by (simp add: demoJumper_fields JUMPER_SPEED_def)

text \<open>
  C1 as stated fails. The agent of the long row of \<open>demoMaze\<close> stands on its
  \<open>patrolMax = 12\<close>; the player stands in the lane at \<open>x = 13\<close>. After the frame the
  agent is chasing and still at \<open>12\<close>: the step to \<open>12.08\<close> was clamped.
\<close>

theorem hunt_chase_unclamped_counterexample:
  "map_option (\<lambda>j'. (state j', vx (position j')))
     (stepJumper Hunt demoMaze \<lparr>vx = 13, vy = 1.5, vz = 0\<rparr>
        (demoJumper\<lparr>position := \<lparr>vx = 12, vy = 0.8, vz = 0\<rparr>\<rparr>))
   = Some (Chasing, 12)
   \<and> patrolMax demoJumper = 12
   \<and> 12 + JUMPER_SPEED > patrolMax demoJumper"
  by (simp add: stepJumper_basic_eq stepJumper_basic_def updateJumperState_basic_def playerInLane_def
        demoJumper_fields moveJumper_basic_keeps moveJumper_basic_position hunt_chase_position
        alignAndClamp_x JUMPER_SPEED_def Let_def)

section \<open>Corridors and selection: shared lemmas\<close>

lemma wellBuilt_newCorridor: "2 \<le> len \<Longrightarrow> wellBuilt (newCorridor t start fixed len)"
  by (simp add: wellBuilt_def newCorridor_def)

lemma wellBuilt_push:
  "list_all wellBuilt cs \<Longrightarrow> 2 \<le> len \<Longrightarrow>
     list_all wellBuilt (pushCorridor (newCorridor t start fixed len) cs)"
  by (simp add: pushCorridor_def wellBuilt_newCorridor)

lemma wellBuilt_scanLine:
  "list_all wellBuilt cs \<Longrightarrow> scanLine cell t fixed line start len cs = Some (start', len', cs')
     \<Longrightarrow> list_all wellBuilt cs'"
proof (induction line arbitrary: start len cs)
  case Nil
  then show ?case by simp
next
  case (Cons i line)
  show ?case
  proof (cases "cell i")
    case None
    with Cons.prems show ?thesis by simp
  next
    case (Some b)
    show ?thesis
    proof (cases b)
      case True
      with Some Cons.prems Cons.IH [of cs "if start = -1 then i else start" "len + 1"]
      show ?thesis by simp
    next
      case False
      let ?cs = "if len \<ge> 2 then pushCorridor (newCorridor t start fixed len) cs else cs"
      have "list_all wellBuilt ?cs"
        using Cons.prems(1) by (simp add: wellBuilt_push)
      with False Some Cons.prems(2) Cons.IH [of ?cs "-1" 0] show ?thesis by simp
    qed
  qed
qed

lemma wellBuilt_scanLines:
  "list_all wellBuilt cs \<Longrightarrow> scanLines cell t lines cs = Some cs' \<Longrightarrow> list_all wellBuilt cs'"
proof (induction lines arbitrary: cs)
  case Nil
  then show ?case by simp
next
  case (Cons fixed lines)
  from Cons.prems(2) obtain start len cs1 where
    line: "scanLine (cell fixed) t fixed [1 .. MAZE_SIZE - 2] (-1) 0 cs = Some (start, len, cs1)"
    and rest: "scanLines cell t lines
                 (if len \<ge> 2 then pushCorridor (newCorridor t start fixed len) cs1 else cs1) = Some cs'"
    by (auto split: option.splits)
  from wellBuilt_scanLine [OF Cons.prems(1) line] have "list_all wellBuilt cs1" .
  then have "list_all wellBuilt (if len \<ge> 2 then pushCorridor (newCorridor t start fixed len) cs1 else cs1)"
    by (simp add: wellBuilt_push)
  from Cons.IH [OF this rest] show ?case .
qed

lemma wellBuilt_detectCorridors:
  assumes "detectCorridors m = Some cs"
  shows "list_all wellBuilt cs"
proof -
  from assms obtain hs where
    h: "scanLines (\<lambda>cz cx. pathCell m cx cz) Horizontal [1 .. MAZE_SIZE - 2] [] = Some hs"
    and v: "scanLines (\<lambda>cx cz. pathCell m cx cz) Vertical [1 .. MAZE_SIZE - 2] hs = Some cs"
    by (auto simp: detectCorridors_def split: option.splits)
  have "list_all wellBuilt hs" by (rule wellBuilt_scanLines [OF _ h]) simp
  then show ?thesis by (rule wellBuilt_scanLines [OF _ v])
qed

lemma set_sortCorridors: "set (sortCorridors cs) = set cs"
  by (simp add: sortCorridors_def)

lemma set_firstPass: "set (firstPass cs sel) \<subseteq> set cs \<union> set sel"
  by (induction cs sel rule: firstPass.induct) auto

lemma set_secondPass: "set (secondPass cs sel) \<subseteq> set cs \<union> set sel"
  by (induction cs sel rule: secondPass.induct) auto

lemma set_selectCorridors: "set (selectCorridors cs) \<subseteq> set cs"
  using set_secondPass [of "sortCorridors cs" "firstPass (sortCorridors cs) []"]
        set_firstPass [of "sortCorridors cs" "[]"]
  by (auto simp: selectCorridors_def Let_def set_sortCorridors)

lemma short_corridor_bounds:
  assumes "wellBuilt c" and "clength c \<le> 3"
  shows "patrolMax (makeJumper c ph) \<le> patrolMin (makeJumper c ph)"
    and "clength c = 2 \<Longrightarrow> patrolMin (makeJumper c ph) = patrolMax (makeJumper c ph) + 1"
  using assms by (cases "ctype c"; simp add: makeJumper_def wellBuilt_def Let_def)+

lemma demoMaze_corridors:
  "detectCorridors demoMaze =
     Some [newCorridor Horizontal 5 5 2, newCorridor Horizontal 1 15 28, newCorridor Vertical 1 16 28]"
  by code_simp

lemma demo_selection:
  "selectCorridors [newCorridor Horizontal 5 5 2, newCorridor Horizontal 1 15 28, newCorridor Vertical 1 16 28]
   = [newCorridor Horizontal 1 15 28, newCorridor Vertical 1 16 28, newCorridor Horizontal 5 5 2]"
  by code_simp

lemma spacedAtLeast_Nil: "spacedAtLeast d []"
  by (simp add: spacedAtLeast_def)

lemma spacedAtLeast_snoc:
  assumes "spacedAtLeast d sel" and "\<not> tooClose d c sel"
  shows "spacedAtLeast d (sel @ [c])"
proof -
  have far: "\<And>s. s \<in> set sel \<Longrightarrow> ctype c = ctype s \<Longrightarrow> d \<le> \<bar>cfixed c - cfixed s\<bar>"
    using assms(2) by (auto simp: tooClose_def list_ex_iff)
  show ?thesis
    unfolding spacedAtLeast_def
  proof (intro allI impI)
    fix i j
    assume h: "i < length (sel @ [c]) \<and> j < length (sel @ [c]) \<and> i \<noteq> j
               \<and> ctype ((sel @ [c]) ! i) = ctype ((sel @ [c]) ! j)"
    consider "i < length sel" "j < length sel" | "i < length sel" "j = length sel"
      | "i = length sel" "j < length sel"
      using h by (cases "i < length sel"; cases "j < length sel") auto
    then show "d \<le> \<bar>cfixed ((sel @ [c]) ! i) - cfixed ((sel @ [c]) ! j)\<bar>"
    proof cases
      case 1
      with h assms(1) show ?thesis by (simp add: spacedAtLeast_def nth_append)
    next
      case 2
      with h far [of "sel ! i"] show ?thesis by (simp add: nth_append abs_minus_commute)
    next
      case 3
      with h far [of "sel ! j"] show ?thesis by (simp add: nth_append)
    qed
  qed
qed

lemma spacedAtLeast_mono: "spacedAtLeast d sel \<Longrightarrow> d' \<le> d \<Longrightarrow> spacedAtLeast d' sel"
  unfolding spacedAtLeast_def by (meson order_trans)

lemma firstPass_spaced: "spacedAtLeast 4 sel \<Longrightarrow> spacedAtLeast 4 (firstPass cs sel)"
  by (induction cs sel rule: firstPass.induct) (simp_all add: spacedAtLeast_snoc)

lemma secondPass_spaced: "spacedAtLeast 2 sel \<Longrightarrow> spacedAtLeast 2 (secondPass cs sel)"
  by (induction cs sel rule: secondPass.induct) (simp_all add: spacedAtLeast_snoc)

lemma secondPass_prefix: "take (length sel) (secondPass cs sel) = sel"
proof (induction cs sel rule: secondPass.induct)
  case (1 selected)
  then show ?case by simp
next
  case (2 c cs selected)
  have "take (length selected) (secondPass cs (selected @ [c])) = selected"
    if "take (length (selected @ [c])) (secondPass cs (selected @ [c])) = selected @ [c]"
  proof -
    have "take (length selected) (secondPass cs (selected @ [c]))
          = take (length selected) (take (length (selected @ [c])) (secondPass cs (selected @ [c])))"
      by simp
    also have "\<dots> = selected" by (simp only: that) simp
    finally show ?thesis .
  qed
  with 2 show ?case by simp
qed

lemma firstPass_long:
  "list_all (\<lambda>c. 5 \<le> clength c) sel \<Longrightarrow> list_all (\<lambda>c. 5 \<le> clength c) (firstPass cs sel)"
  by (induction cs sel rule: firstPass.induct) simp_all

lemma firstPass_count: "length sel \<le> JUMPER_COUNT \<Longrightarrow> length (firstPass cs sel) \<le> JUMPER_COUNT"
  by (induction cs sel rule: firstPass.induct) simp_all

lemma secondPass_count: "length sel \<le> JUMPER_COUNT \<Longrightarrow> length (secondPass cs sel) \<le> JUMPER_COUNT"
  by (induction cs sel rule: secondPass.induct) simp_all

section \<open>Spacing of the selected corridors\<close>

text \<open>
  C7. For every list of corridors, the corridors accepted in the first pass all have
  length at least 5 and are spaced by 4; they are the front of the final selection; and
  the final selection, after the second pass, is spaced by 2 and has at most
  \<open>JUMPER_COUNT\<close> corridors.
\<close>

theorem selection_spacing:
  "let sorted = sortCorridors corridors;
       pass1 = firstPass sorted [];
       selected = selectCorridors corridors
   in spacedAtLeast 4 pass1
      \<and> list_all (\<lambda>c. 5 \<le> clength c) pass1
      \<and> take (length pass1) selected = pass1
      \<and> spacedAtLeast 2 selected
      \<and> length selected \<le> JUMPER_COUNT"
proof -
  let ?sorted = "sortCorridors corridors"
  let ?p1 = "firstPass ?sorted []"
  have s4: "spacedAtLeast 4 ?p1" by (rule firstPass_spaced) (rule spacedAtLeast_Nil)
  have long: "list_all (\<lambda>c. 5 \<le> clength c) ?p1" by (rule firstPass_long) simp
  have c1: "length ?p1 \<le> JUMPER_COUNT" by (rule firstPass_count) simp
  have sel: "selectCorridors corridors = secondPass ?sorted ?p1"
    by (cases ?sorted) (simp_all add: selectCorridors_def Let_def)
  have s2: "spacedAtLeast 2 (secondPass ?sorted ?p1)"
    by (rule secondPass_spaced) (rule spacedAtLeast_mono [OF s4], simp)
  show ?thesis
    unfolding Let_def sel
    using s4 long s2 secondPass_prefix [of ?p1 ?sorted] secondPass_count [OF c1, of ?sorted]
    by simp
qed

text \<open>
  A run on five corridors: the first pass takes the column and rows 3 and 7 and refuses
  row 5 (two rows from row 3); the second pass adds row 5 and refuses row 4.
\<close>

theorem selection_spacing_witness:
  "firstPass (sortCorridors demoCorridors) []
     = [newCorridor Vertical 12 9 7, newCorridor Horizontal 1 3 6, newCorridor Horizontal 1 7 6]
   \<and> selectCorridors demoCorridors
     = [newCorridor Vertical 12 9 7, newCorridor Horizontal 1 3 6, newCorridor Horizontal 1 7 6,
        newCorridor Horizontal 1 5 6]
   \<and> spacedAtLeast 4 (firstPass (sortCorridors demoCorridors) [])
   \<and> spacedAtLeast 2 (selectCorridors demoCorridors)"
proof -
  have p1: "firstPass (sortCorridors demoCorridors) []
     = [newCorridor Vertical 12 9 7, newCorridor Horizontal 1 3 6, newCorridor Horizontal 1 7 6]"
    by code_simp
  have p2: "selectCorridors demoCorridors
     = [newCorridor Vertical 12 9 7, newCorridor Horizontal 1 3 6, newCorridor Horizontal 1 7 6,
        newCorridor Horizontal 1 5 6]"
    by code_simp
  show ?thesis
    using selection_spacing [of demoCorridors] p1 p2 by (simp add: Let_def)
qed

section \<open>Short corridors pin their agent\<close>

text \<open>
  C10. A corridor of length at most 3 that the allocator selects from the corridors of a
  maze gives its agent \<open>patrolMin \<ge> patrolMax\<close> (for length 2, \<open>patrolMin = patrolMax + 1\<close>).
  Outside survival mode, one frame then puts any agent with these bounds, whatever its
  state, position or direction, at \<open>patrolMin\<close> along its patrol axis, and so does every
  run of one or more frames from the agent as spawned.
\<close>

theorem short_corridor_pins_agent:
  assumes "detectCorridors m = Some cs" and "c \<in> set (selectCorridors cs)"
      and "clength c \<le> 3" and "gameMode \<noteq> Survival"
  shows "let j0 = makeJumper c ph
         in patrolMax j0 \<le> patrolMin j0
            \<and> (clength c = 2 \<longrightarrow> patrolMin j0 = patrolMax j0 + 1)
            \<and> (\<forall>j. patrolMin j = patrolMin j0 \<and> patrolMax j = patrolMax j0 \<longrightarrow>
                   stepJumper gameMode m p j = Some (stepJumper_basic p j)
                   \<and> patrolCoord (stepJumper_basic p j) = patrolMin j0)
            \<and> (ps \<noteq> [] \<longrightarrow>
                   runFrames gameMode m ps j0 = Some (runFrames_basic ps j0)
                   \<and> patrolCoord (runFrames_basic ps j0) = patrolMin j0)"
proof -
  from assms(2) set_selectCorridors have "c \<in> set cs" by blast
  with wellBuilt_detectCorridors [OF assms(1)] have wb: "wellBuilt c"
    by (simp add: list_all_iff)
  note b = short_corridor_bounds [OF wb assms(3), of ph]
  show ?thesis
    unfolding Let_def
    using b pinned_stepJumper pinned_runFrames [OF b(1)]
          stepJumper_basic_eq [OF assms(4)] runFrames_basic_eq [OF assms(4)]
    by simp
qed

text \<open>
  The pocket of \<open>demoMaze\<close> is a corridor of length 2; the allocator selects it in its
  second pass. Its agent has \<open>patrolMin = -9\<close> and \<open>patrolMax = -10\<close>, spawns at \<open>-9.5\<close>
  and is at \<open>-9\<close> after two frames.
\<close>

theorem short_corridor_pins_agent_witness:
  "detectCorridors demoMaze =
     Some [newCorridor Horizontal 5 5 2, newCorridor Horizontal 1 15 28, newCorridor Vertical 1 16 28]
   \<and> newCorridor Horizontal 5 5 2 \<in>
       set (selectCorridors [newCorridor Horizontal 5 5 2, newCorridor Horizontal 1 15 28,
                             newCorridor Vertical 1 16 28])
   \<and> clength (newCorridor Horizontal 5 5 2) = 2
   \<and> Hunt \<noteq> Survival
   \<and> patrolMin (makeJumper (newCorridor Horizontal 5 5 2) 0) = - 9
   \<and> patrolMax (makeJumper (newCorridor Horizontal 5 5 2) 0) = - 10
   \<and> [\<lparr>vx = - 9.5, vy = 1.5, vz = - 10\<rparr>, \<lparr>vx = - 13.5, vy = 1.5, vz = - 13.5\<rparr>] \<noteq> []
   \<and> patrolCoord (runFrames_basic [\<lparr>vx = - 9.5, vy = 1.5, vz = - 10\<rparr>, \<lparr>vx = - 13.5, vy = 1.5, vz = - 13.5\<rparr>]
                   (makeJumper (newCorridor Horizontal 5 5 2) 0)) = - 9"
proof -
  have sel: "newCorridor Horizontal 5 5 2 \<in>
       set (selectCorridors [newCorridor Horizontal 5 5 2, newCorridor Horizontal 1 15 28,
                             newCorridor Vertical 1 16 28])"
    by (simp add: demo_selection)
  have len: "clength (newCorridor Horizontal 5 5 2) \<le> 3"
    by (simp add: newCorridor_def)
  have bounds: "patrolMin (makeJumper (newCorridor Horizontal 5 5 2) 0) = - 9"
               "patrolMax (makeJumper (newCorridor Horizontal 5 5 2) 0) = - 10"
    by (simp_all add: makeJumper_def newCorridor_def MAZE_SIZE_def Let_def)
  show ?thesis
    using short_corridor_pins_agent [OF demoMaze_corridors sel len, of Hunt 0 "\<lparr>vx = 0, vy = 1.5, vz = 0\<rparr>"
            "[\<lparr>vx = - 9.5, vy = 1.5, vz = - 10\<rparr>, \<lparr>vx = - 13.5, vy = 1.5, vz = - 13.5\<rparr>]"]
          demoMaze_corridors sel bounds
    by (simp add: Let_def newCorridor_def)
qed

section \<open>Survival mode: shared lemmas\<close>

lemma updateJumperState_survival:
  "state j \<noteq> Chasing \<Longrightarrow> playerInLane p j \<Longrightarrow>
     globalChase (updateJumperState Survival p j) \<and> state (updateJumperState Survival p j) = Chasing"
  "globalChase j \<Longrightarrow> globalChase (updateJumperState Survival p j)"
  "state j = Chasing \<Longrightarrow> state (updateJumperState Survival p j) = Chasing"
  by (simp_all add: updateJumperState_def Let_def)

lemma moveJumper_unfold:
  fixes g m p j
  defines "j3 \<equiv> turnTo (snd (chooseTarget g p (j\<lparr>jumpPhase := jumpPhase j + JUMP_FREQUENCY\<rparr>)))
                       (fst (chooseTarget g p (j\<lparr>jumpPhase := jumpPhase j + JUMP_FREQUENCY\<rparr>)))"
  defines "np \<equiv> stepAhead (if state j3 = Queued then JUMPER_SPEED * 0.7
                            else if globalChase j3 \<and> g = Survival then JUMPER_SPEED * 0.5
                            else JUMPER_SPEED) j3"
  defines "h \<equiv> jumpHeightAt (jumpPhase (j\<lparr>jumpPhase := jumpPhase j + JUMP_FREQUENCY\<rparr>))"
  shows "moveJumper g m p j =
           (if globalChase j3 \<and> g = Survival then
              (if outOfGrid \<lfloor>vx np + real_of_int MAZE_SIZE / 2\<rfloor> \<lfloor>vz np + real_of_int MAZE_SIZE / 2\<rfloor>
               then Some (writeBack h j3 (position j3))
               else (case wallCell m \<lfloor>vx np + real_of_int MAZE_SIZE / 2\<rfloor> \<lfloor>vz np + real_of_int MAZE_SIZE / 2\<rfloor> of
                       None \<Rightarrow> None
                     | Some True \<Rightarrow> Some (writeBack h j3 (position j3))
                     | Some False \<Rightarrow> Some (writeBack h j3 np)))
            else Some (writeBack h j3 (alignAndClamp j3 np)))"
  unfolding moveJumper_def Let_def j3_def np_def h_def outOfGrid_def by (rule refl)

lemma moveJumper_defined:
  assumes "MAZE_SIZE \<le> int (length m)"
  shows "\<exists>j'. moveJumper g m p j = Some j' \<and> state j' = state j \<and> globalChase j' = globalChase j"
proof -
  define j3 where "j3 = turnTo (snd (chooseTarget g p (j\<lparr>jumpPhase := jumpPhase j + JUMP_FREQUENCY\<rparr>)))
                       (fst (chooseTarget g p (j\<lparr>jumpPhase := jumpPhase j + JUMP_FREQUENCY\<rparr>)))"
  define np where "np = stepAhead (if state j3 = Queued then JUMPER_SPEED * 0.7
                            else if globalChase j3 \<and> g = Survival then JUMPER_SPEED * 0.5
                            else JUMPER_SPEED) j3"
  define h where "h = jumpHeightAt (jumpPhase (j\<lparr>jumpPhase := jumpPhase j + JUMP_FREQUENCY\<rparr>))"
  define cx where "cx = \<lfloor>vx np + real_of_int MAZE_SIZE / 2\<rfloor>"
  define cz where "cz = \<lfloor>vz np + real_of_int MAZE_SIZE / 2\<rfloor>"
  have k: "state j3 = state j" "globalChase j3 = globalChase j"
    by (simp_all add: j3_def keeps)
  have mv: "moveJumper g m p j =
           (if globalChase j3 \<and> g = Survival then
              (if outOfGrid cx cz then Some (writeBack h j3 (position j3))
               else (case wallCell m cx cz of
                       None \<Rightarrow> None
                     | Some True \<Rightarrow> Some (writeBack h j3 (position j3))
                     | Some False \<Rightarrow> Some (writeBack h j3 np)))
            else Some (writeBack h j3 (alignAndClamp j3 np)))"
    unfolding j3_def np_def h_def cx_def cz_def by (rule moveJumper_unfold)
  have w: "\<not> outOfGrid cx cz \<Longrightarrow> wallCell m cx cz \<noteq> None"
    using assms by (intro wallCell_defined) (auto simp: outOfGrid_def)
  show ?thesis
    unfolding mv using w k
    by (auto simp: writeBack_keeps split: option.splits bool.splits)
qed

lemma stepJumper_survival_defined:
  assumes "MAZE_SIZE \<le> int (length m)"
  shows "\<exists>j'. stepJumper Survival m p j = Some j'
              \<and> (globalChase j \<longrightarrow> globalChase j') \<and> (state j = Chasing \<longrightarrow> state j' = Chasing)
              \<and> (state j \<noteq> Chasing \<and> playerInLane p j \<longrightarrow> globalChase j' \<and> state j' = Chasing)"
  using moveJumper_defined [OF assms, of Survival p "updateJumperState Survival p j"]
  by (auto simp: stepJumper_def updateJumperState_survival)

lemma runFrames_survival_defined:
  assumes "MAZE_SIZE \<le> int (length m)"
  shows "\<exists>j'. runFrames Survival m ps j = Some j'
              \<and> (globalChase j \<longrightarrow> globalChase j') \<and> (state j = Chasing \<longrightarrow> state j' = Chasing)"
proof (induction ps arbitrary: j)
  case Nil
  then show ?case by simp
next
  case (Cons p ps)
  from stepJumper_survival_defined [OF assms, of p j] obtain j1 where
    s: "stepJumper Survival m p j = Some j1" "globalChase j \<longrightarrow> globalChase j1"
       "state j = Chasing \<longrightarrow> state j1 = Chasing"
    by blast
  from Cons.IH [of j1] obtain j' where
    r: "runFrames Survival m ps j1 = Some j'" "globalChase j1 \<longrightarrow> globalChase j'"
       "state j1 = Chasing \<longrightarrow> state j' = Chasing"
    by blast
  from s r show ?case by simp
qed

lemma survival_candidate:
  assumes "state j = Chasing" and "globalChase j"
  shows "stepAhead s (turnTo (snd (chooseTarget Survival p (j\<lparr>jumpPhase := ph\<rparr>)))
                             (fst (chooseTarget Survival p (j\<lparr>jumpPhase := ph\<rparr>))))
         = (let dx = vx p - vx (position j); dz = vz p - vz (position j)
            in if (if patrolAxis j = AxisX \<and> \<bar>dx\<bar> > 0.5 then AxisX
                   else if patrolAxis j = AxisZ \<and> \<bar>dz\<bar> > 0.5 then AxisZ
                   else if \<bar>dx\<bar> > \<bar>dz\<bar> then AxisX else AxisZ) = AxisX
               then (position j)\<lparr>vx := vx (position j) + (if dx > 0 then s else - s)\<rparr>
               else (position j)\<lparr>vz := vz (position j) + (if dz > 0 then s else - s)\<rparr>)"
    and "patrolAxis (turnTo (snd (chooseTarget Survival p (j\<lparr>jumpPhase := ph\<rparr>)))
                            (fst (chooseTarget Survival p (j\<lparr>jumpPhase := ph\<rparr>))))
         = (let dx = vx p - vx (position j); dz = vz p - vz (position j)
            in if patrolAxis j = AxisX \<and> \<bar>dx\<bar> > 0.5 then AxisX
               else if patrolAxis j = AxisZ \<and> \<bar>dz\<bar> > 0.5 then AxisZ
               else if \<bar>dx\<bar> > \<bar>dz\<bar> then AxisX else AxisZ)"
  using assms
  by (cases "patrolAxis j";
      simp add: chooseTarget_def survivalTarget_def turnTo_def stepAhead_def vlength_axis_x vlength_axis_z
        normalize_unit_x normalize_unit_z addv_def multiplyScalar_def Let_def)+

lemma survival_move_result:
  assumes "MAZE_SIZE \<le> int (length m)" and "state j = Chasing" and "globalChase j"
  shows "\<exists>j'. moveJumper Survival m p j = Some j' \<and>
           (let dx = vx p - vx (position j);
                dz = vz p - vz (position j);
                ax = (if patrolAxis j = AxisX \<and> \<bar>dx\<bar> > 0.5 then AxisX
                      else if patrolAxis j = AxisZ \<and> \<bar>dz\<bar> > 0.5 then AxisZ
                      else if \<bar>dx\<bar> > \<bar>dz\<bar> then AxisX else AxisZ);
                speed = JUMPER_SPEED * 0.5;
                cand = (if ax = AxisX
                        then (position j)\<lparr>vx := vx (position j) + (if dx > 0 then speed else - speed)\<rparr>
                        else (position j)\<lparr>vz := vz (position j) + (if dz > 0 then speed else - speed)\<rparr>);
                cx = \<lfloor>vx cand + real_of_int MAZE_SIZE / 2\<rfloor>;
                cz = \<lfloor>vz cand + real_of_int MAZE_SIZE / 2\<rfloor>;
                blocked = (outOfGrid cx cz \<or> wallCell m cx cz = Some True)
            in patrolAxis j' = ax \<and> state j' = Chasing \<and> globalChase j'
               \<and> vx (position j') = (if blocked then vx (position j) else vx cand)
               \<and> vz (position j') = (if blocked then vz (position j) else vz cand))"
proof -
  define j1 where "j1 = j\<lparr>jumpPhase := jumpPhase j + JUMP_FREQUENCY\<rparr>"
  define j3 where "j3 = turnTo (snd (chooseTarget Survival p j1)) (fst (chooseTarget Survival p j1))"
  define np where "np = stepAhead (if state j3 = Queued then JUMPER_SPEED * 0.7
                            else if globalChase j3 \<and> Survival = Survival then JUMPER_SPEED * 0.5
                            else JUMPER_SPEED) j3"
  define h where "h = jumpHeightAt (jumpPhase j1)"
  define dx where "dx = vx p - vx (position j)"
  define dz where "dz = vz p - vz (position j)"
  define ax where "ax = (if patrolAxis j = AxisX \<and> \<bar>dx\<bar> > 0.5 then AxisX
                      else if patrolAxis j = AxisZ \<and> \<bar>dz\<bar> > 0.5 then AxisZ
                      else if \<bar>dx\<bar> > \<bar>dz\<bar> then AxisX else AxisZ)"
  define cand where "cand = (if ax = AxisX
                        then (position j)\<lparr>vx := vx (position j) + (if dx > 0 then JUMPER_SPEED * 0.5 else - (JUMPER_SPEED * 0.5))\<rparr>
                        else (position j)\<lparr>vz := vz (position j) + (if dz > 0 then JUMPER_SPEED * 0.5 else - (JUMPER_SPEED * 0.5))\<rparr>)"
  define cx where "cx = \<lfloor>vx cand + real_of_int MAZE_SIZE / 2\<rfloor>"
  define cz where "cz = \<lfloor>vz cand + real_of_int MAZE_SIZE / 2\<rfloor>"
  have k: "state j3 = Chasing" "globalChase j3" "position j3 = position j"
    using assms(2,3) by (simp_all add: j3_def j1_def keeps)
  have ax: "patrolAxis j3 = ax"
    unfolding j3_def j1_def ax_def dx_def dz_def
    using survival_candidate(2) [OF assms(2,3)] by (simp add: Let_def)
  have "np = stepAhead (JUMPER_SPEED * 0.5) j3"
    by (simp add: np_def k)
  then have np: "np = cand"
    unfolding j3_def j1_def cand_def ax_def dx_def dz_def
    using survival_candidate(1) [OF assms(2,3)] by (simp add: Let_def)
  have mv: "moveJumper Survival m p j =
           (if globalChase j3 \<and> Survival = Survival then
              (if outOfGrid \<lfloor>vx np + real_of_int MAZE_SIZE / 2\<rfloor> \<lfloor>vz np + real_of_int MAZE_SIZE / 2\<rfloor>
               then Some (writeBack h j3 (position j3))
               else (case wallCell m \<lfloor>vx np + real_of_int MAZE_SIZE / 2\<rfloor> \<lfloor>vz np + real_of_int MAZE_SIZE / 2\<rfloor> of
                       None \<Rightarrow> None
                     | Some True \<Rightarrow> Some (writeBack h j3 (position j3))
                     | Some False \<Rightarrow> Some (writeBack h j3 np)))
            else Some (writeBack h j3 (alignAndClamp j3 np)))"
    unfolding j3_def np_def h_def j1_def by (rule moveJumper_unfold)
  have mv': "moveJumper Survival m p j =
              (if outOfGrid cx cz then Some (writeBack h j3 (position j))
               else (case wallCell m cx cz of
                       None \<Rightarrow> None
                     | Some True \<Rightarrow> Some (writeBack h j3 (position j))
                     | Some False \<Rightarrow> Some (writeBack h j3 cand)))"
    unfolding mv by (simp add: k np cx_def cz_def cong: option.case_cong bool.case_cong)
  have w: "\<not> outOfGrid cx cz \<Longrightarrow> wallCell m cx cz \<noteq> None"
    using assms(1) by (intro wallCell_defined) (auto simp: outOfGrid_def)
  have "\<exists>j'. moveJumper Survival m p j = Some j' \<and> patrolAxis j' = ax \<and> state j' = Chasing \<and> globalChase j'
               \<and> vx (position j') = (if outOfGrid cx cz \<or> wallCell m cx cz = Some True then vx (position j) else vx cand)
               \<and> vz (position j') = (if outOfGrid cx cz \<or> wallCell m cx cz = Some True then vz (position j) else vz cand)"
  proof (cases "outOfGrid cx cz")
    case True
    with k ax show ?thesis unfolding mv' by (simp add: writeBack_keeps)
  next
    case False
    with w obtain b where "wallCell m cx cz = Some b" by auto
    with False k ax show ?thesis unfolding mv' by (cases b) (simp_all add: writeBack_keeps)
  qed
  then show ?thesis
    unfolding Let_def cx_def cz_def cand_def ax_def dx_def dz_def by simp
qed

section \<open>Survival mode: the chase is one-way\<close>

text \<open>
  C4. In survival mode, on a maze array with its \<open>MAZE_SIZE\<close> rows, every run of
  frames returns. A frame in which the player passes the lane test of an agent that is
  not chasing sets \<open>globalChase\<close> and the state \<open>chasing\<close>, and they are still set after
  any further frames, wherever the player goes; more generally no run of frames clears
  \<open>globalChase\<close> or takes an agent out of the state \<open>chasing\<close>.
\<close>

theorem survival_chase_is_sticky:
  assumes "MAZE_SIZE \<le> int (length m)"
  shows "(state j \<noteq> Chasing \<and> playerInLane p j \<longrightarrow>
            (\<exists>j'. runFrames Survival m (p # ps) j = Some j' \<and> globalChase j' \<and> state j' = Chasing))
       \<and> (\<exists>j'. runFrames Survival m ps j = Some j'
                \<and> (globalChase j \<longrightarrow> globalChase j')
                \<and> (state j = Chasing \<longrightarrow> state j' = Chasing))"
proof -
  have "\<exists>j'. runFrames Survival m (p # ps) j = Some j' \<and> globalChase j' \<and> state j' = Chasing"
    if h: "state j \<noteq> Chasing \<and> playerInLane p j"
  proof -
    from stepJumper_survival_defined [OF assms, of p j] h obtain j1 where
      s: "stepJumper Survival m p j = Some j1" "globalChase j1" "state j1 = Chasing"
      by blast
    from runFrames_survival_defined [OF assms, of ps j1] s obtain j' where
      "runFrames Survival m ps j1 = Some j'" "globalChase j'" "state j' = Chasing"
      by blast
    with s show ?thesis by simp
  qed
  with runFrames_survival_defined [OF assms, of ps j] show ?thesis by blast
qed

text \<open>
  The agent of the long row of \<open>demoMaze\<close>: the player is in its lane for one frame and
  then stays far outside it for two; the agent ends chasing with \<open>globalChase\<close> set.
\<close>

theorem survival_chase_is_sticky_witness:
  "MAZE_SIZE \<le> int (length demoMaze)
   \<and> state demoJumper \<noteq> Chasing
   \<and> playerInLane \<lparr>vx = 5, vy = 1.5, vz = 0.5\<rparr> demoJumper
   \<and> \<not> playerInLane \<lparr>vx = 1.5, vy = 1.5, vz = 9.5\<rparr> demoJumper
   \<and> (\<exists>j'. runFrames Survival demoMaze
              [\<lparr>vx = 5, vy = 1.5, vz = 0.5\<rparr>, \<lparr>vx = 1.5, vy = 1.5, vz = 9.5\<rparr>, \<lparr>vx = 1.5, vy = 1.5, vz = 9.5\<rparr>]
              demoJumper = Some j'
            \<and> globalChase j' \<and> state j' = Chasing)"
  using survival_chase_is_sticky [OF demoMaze_rows, of demoJumper "\<lparr>vx = 5, vy = 1.5, vz = 0.5\<rparr>"
          "[\<lparr>vx = 1.5, vy = 1.5, vz = 9.5\<rparr>, \<lparr>vx = 1.5, vy = 1.5, vz = 9.5\<rparr>]"]
        demoMaze_rows
  by (simp add: playerInLane_def demoJumper_fields Let_def)

section \<open>Survival mode: the pursuit step\<close>

text \<open>
  C6, as the code has it. In survival mode, on a maze array with its \<open>MAZE_SIZE\<close> rows, a
  chasing agent with \<open>globalChase\<close> set moves along its own patrol axis while the player
  is more than 0.5 away on that axis; otherwise along the axis of the larger
  displacement (\<open>z\<close> on a tie), which becomes its \<open>patrolAxis\<close>. The candidate is one
  step of \<open>JUMPER_SPEED * 0.5\<close> toward the player on that axis. The move is cancelled,
  and \<open>x\<close> and \<open>z\<close> stay as they were, exactly when the cell of the candidate point is
  outside the grid or a wall; the four-corner test \<open>isWallAtZombie\<close> is not consulted.
\<close>

theorem survival_chase_step:
  assumes "MAZE_SIZE \<le> int (length m)" and "state j = Chasing" and "globalChase j"
  shows "\<exists>j'. moveJumper Survival m p j = Some j' \<and>
           (let dx = vx p - vx (position j);
                dz = vz p - vz (position j);
                ax = (if patrolAxis j = AxisX \<and> \<bar>dx\<bar> > 0.5 then AxisX
                      else if patrolAxis j = AxisZ \<and> \<bar>dz\<bar> > 0.5 then AxisZ
                      else if \<bar>dx\<bar> > \<bar>dz\<bar> then AxisX else AxisZ);
                speed = JUMPER_SPEED * 0.5;
                cand = (if ax = AxisX
                        then (position j)\<lparr>vx := vx (position j) + (if dx > 0 then speed else - speed)\<rparr>
                        else (position j)\<lparr>vz := vz (position j) + (if dz > 0 then speed else - speed)\<rparr>);
                cx = \<lfloor>vx cand + real_of_int MAZE_SIZE / 2\<rfloor>;
                cz = \<lfloor>vz cand + real_of_int MAZE_SIZE / 2\<rfloor>;
                blocked = (outOfGrid cx cz \<or> wallCell m cx cz = Some True)
            in patrolAxis j' = ax \<and> state j' = Chasing \<and> globalChase j'
               \<and> vx (position j') = (if blocked then vx (position j) else vx cand)
               \<and> vz (position j') = (if blocked then vz (position j) else vz cand))"
  using assms by (rule survival_move_result)

text \<open>
  The chasing agent of the long row of \<open>demoMaze\<close>, the player two units to its right
  in the same row: one step of \<open>0.04\<close> along \<open>x\<close>, into the open cell \<open>(14, 15)\<close>.
\<close>

theorem survival_chase_step_witness:
  "MAZE_SIZE \<le> int (length demoMaze)
   \<and> state (demoJumper\<lparr>state := Chasing, globalChase := True\<rparr>) = Chasing
   \<and> globalChase (demoJumper\<lparr>state := Chasing, globalChase := True\<rparr>)
   \<and> (\<exists>j'. moveJumper Survival demoMaze \<lparr>vx = 1.5, vy = 1.5, vz = 0.2\<rparr>
               (demoJumper\<lparr>state := Chasing, globalChase := True\<rparr>) = Some j'
            \<and> patrolAxis j' = AxisX \<and> vx (position j') = - 0.46 \<and> vz (position j') = 0)"
proof -
  have c: "wallCell demoMaze 14 15 = Some False"
    by (simp add: wallCell_def demoMaze_def)
  from survival_chase_step [OF demoMaze_rows, of "demoJumper\<lparr>state := Chasing, globalChase := True\<rparr>"
            "\<lparr>vx = 1.5, vy = 1.5, vz = 0.2\<rparr>"]
  obtain j' where "moveJumper Survival demoMaze \<lparr>vx = 1.5, vy = 1.5, vz = 0.2\<rparr>
               (demoJumper\<lparr>state := Chasing, globalChase := True\<rparr>) = Some j'"
      "patrolAxis j' = AxisX" "vx (position j') = - 0.46" "vz (position j') = 0"
    using c by (auto simp: demoJumper_fields Let_def JUMPER_SPEED_def MAZE_SIZE_def outOfGrid_def)
  then show ?thesis
    using demoMaze_rows by simp
qed

text \<open>
  C6 as stated fails. The same agent, the player now up the column at \<open>\<Delta>x = 2\<close>,
  \<open>\<Delta>z = 6.5\<close>: the displacement is larger along \<open>z\<close>, yet the agent steps along \<open>x\<close>
  and keeps \<open>patrolAxis = 'x'\<close>. The step is taken although the thin-body test
  \<open>isWallAtZombie\<close> reports a wall at the candidate (its corner at grid \<open>z = 14.999\<close>
  lies in the wall row below the corridor).
\<close>

theorem survival_greater_axis_counterexample:
  "\<bar>vz \<lparr>vx = 1.5, vy = 1.5, vz = 6.5\<rparr> - vz (position demoJumper)\<bar>
     > \<bar>vx \<lparr>vx = 1.5, vy = 1.5, vz = 6.5\<rparr> - vx (position demoJumper)\<bar>
   \<and> map_option (\<lambda>j'. (patrolAxis j', vx (position j'), vz (position j')))
        (moveJumper Survival demoMaze \<lparr>vx = 1.5, vy = 1.5, vz = 6.5\<rparr>
           (demoJumper\<lparr>state := Chasing, globalChase := True\<rparr>))
       = Some (AxisX, - 0.46, 0)
   \<and> isWallAtZombie demoMaze \<lparr>vx = - 0.46, vy = 0.8, vz = 0\<rparr> = Some True"
proof -
  have c: "wallCell demoMaze 14 15 = Some False"
    by (simp add: wallCell_def demoMaze_def)
  from survival_move_result [OF demoMaze_rows, of "demoJumper\<lparr>state := Chasing, globalChase := True\<rparr>"
            "\<lparr>vx = 1.5, vy = 1.5, vz = 6.5\<rparr>"]
  obtain j' where "moveJumper Survival demoMaze \<lparr>vx = 1.5, vy = 1.5, vz = 6.5\<rparr>
               (demoJumper\<lparr>state := Chasing, globalChase := True\<rparr>) = Some j'"
      "patrolAxis j' = AxisX" "vx (position j') = - 0.46" "vz (position j') = 0"
    using c by (auto simp: demoJumper_fields Let_def JUMPER_SPEED_def MAZE_SIZE_def outOfGrid_def)
  moreover have "isWallAtZombie demoMaze \<lparr>vx = - 0.46, vy = 0.8, vz = 0\<rparr> = Some True"
    by (simp add: isWallAtZombie_def MAZE_SIZE_def outOfGrid_def wallCell_def demoMaze_def Let_def)
  ultimately show ?thesis by (simp add: demoJumper_fields)
qed

section \<open>Combat: shared lemmas\<close>

lemma knifeLoop_done: "knifeLoop p js n (Suc h) = (js, Suc h)"
  by (cases n) (simp_all add: maxHits_def)

lemma knifeLoop_Suc0:
  "knifeLoop p js (Suc i) 0 =
     (if knifeLegal p (js ! i) then knifeLoop p (splice1 i js) i 1 else knifeLoop p js i 0)"
  by (simp add: maxHits_def knifeLegal_def Let_def)

lemma bulletHitLoop_Suc:
  "bulletHitLoop q js (Suc i) =
     (if bulletLegal q (js ! i) then (splice1 i js, True) else bulletHitLoop q js i)"
  by (simp add: bulletLegal_def Let_def)

lemma bulletHitLoop_single:
  "bulletHitLoop q [j] 1 = (if bulletLegal q j then ([], True) else ([j], False))"
  using bulletHitLoop_Suc [of q "[j]" 0] by (simp add: splice1_def)

lemma distanceTo_eq:
  "0 \<le> c \<Longrightarrow> (vx a - vx b) * (vx a - vx b) + (vy a - vy b) * (vy a - vy b)
                + (vz a - vz b) * (vz a - vz b) = c * c \<Longrightarrow> distanceTo a b = c"
  by (simp add: distanceTo_def)

lemma distanceTo_lt:
  "0 \<le> c \<Longrightarrow> (vx a - vx b) * (vx a - vx b) + (vy a - vy b) * (vy a - vy b)
                + (vz a - vz b) * (vz a - vz b) < c * c \<Longrightarrow> distanceTo a b < c"
  unfolding distanceTo_def by (rule real_less_lsqrt) (simp_all add: power2_eq_square)

lemma knifeLoop_find:
  "knifeLoop p js n 0 =
     (case find (\<lambda>i. knifeLegal p (js ! i)) (rev [0..<n]) of
        None \<Rightarrow> (js, 0)
      | Some i \<Rightarrow> (take i js @ drop (Suc i) js, 1))"
proof (induction n)
  case 0
  show ?case by simp
next
  case (Suc n)
  show ?case
  proof (cases "knifeLegal p (js ! n)")
    case True
    then show ?thesis
      using knifeLoop_done [of p "splice1 n js" n 0]
      by (simp add: knifeLoop_Suc0 splice1_def del: knifeLoop.simps(2))
  next
    case False
    with Suc show ?thesis
      by (simp add: knifeLoop_Suc0 del: knifeLoop.simps(2))
  qed
qed

lemma bulletHitLoop_find:
  "bulletHitLoop q js n =
     (case find (\<lambda>i. bulletLegal q (js ! i)) (rev [0..<n]) of
        None \<Rightarrow> (js, False)
      | Some i \<Rightarrow> (take i js @ drop (Suc i) js, True))"
proof (induction n)
  case 0
  show ?case by simp
next
  case (Suc n)
  show ?case
  proof (cases "bulletLegal q (js ! n)")
    case True
    then show ?thesis
      by (simp add: bulletHitLoop_Suc splice1_def del: bulletHitLoop.simps(2))
  next
    case False
    with Suc show ?thesis
      by (simp add: bulletHitLoop_Suc del: bulletHitLoop.simps(2))
  qed
qed

lemma shootKnife_find:
  "shootKnife now lastShotTime swinging p js =
     (if now - lastShotTime < 200 \<or> swinging then (js, 0)
      else case find (\<lambda>i. knifeLegal p (js ! i)) (rev [0..<length js]) of
             None \<Rightarrow> (js, 0)
           | Some i \<Rightarrow> (take i js @ drop (Suc i) js, 1))"
  by (simp add: shootKnife_def KNIFE_COOLDOWN_def knifeLoop_find del: knifeLoop.simps)

lemma updateBullets_one:
  "updateBullets r m [b] js =
     (case isWallAt r m (addv (bulletPos b) (velocity b)) of
        None \<Rightarrow> None
      | Some inWall \<Rightarrow>
          Some (if inWall \<or> lifetime b + 1 > 200 then ([], js)
                else case find (\<lambda>i. bulletLegal (addv (bulletPos b) (velocity b)) (js ! i))
                            (rev [0..<length js]) of
                       None \<Rightarrow> ([b\<lparr>bulletPos := addv (bulletPos b) (velocity b),
                                    lifetime := lifetime b + 1\<rparr>], js)
                     | Some i \<Rightarrow> ([], take i js @ drop (Suc i) js)))"
  by (simp add: updateBullets_def Let_def bulletHitLoop_find splice1_def
        del: bulletHitLoop.simps split: option.splits)

lemma legal_explicit:
  "knifeLegal p j \<longleftrightarrow>
     (if patrolAxis j = AxisX
      then \<bar>vz p - fixedCoord (laneInfo j)\<bar> < 0.8
           \<and> xMin (laneInfo j) - 0.5 \<le> vx p \<and> vx p \<le> xMax (laneInfo j) + 0.5
      else \<bar>vx p - fixedCoord (laneInfo j)\<bar> < 0.8
           \<and> zMin (laneInfo j) - 0.5 \<le> vz p \<and> vz p \<le> zMax (laneInfo j) + 0.5)
     \<and> sqrt ((vx p - vx (position j)) * (vx p - vx (position j))
               + (vy p - vy (position j)) * (vy p - vy (position j))
               + (vz p - vz (position j)) * (vz p - vz (position j))) < 2.8"
  "bulletLegal q j \<longleftrightarrow>
     (if patrolAxis j = AxisX
      then \<bar>vz q - fixedCoord (laneInfo j)\<bar> < 0.8
           \<and> xMin (laneInfo j) - 0.5 \<le> vx q \<and> vx q \<le> xMax (laneInfo j) + 0.5
      else \<bar>vx q - fixedCoord (laneInfo j)\<bar> < 0.8
           \<and> zMin (laneInfo j) - 0.5 \<le> vz q \<and> vz q \<le> zMax (laneInfo j) + 0.5)
     \<and> sqrt ((vx q - vx (position j)) * (vx q - vx (position j))
               + (vy q - vy (position j)) * (vy q - vy (position j))
               + (vz q - vz (position j)) * (vz q - vz (position j))) < 0.7"
  by (auto simp: knifeLegal_def bulletLegal_def inSameLane_def distanceTo_def KNIFE_RANGE_def Let_def)

lemma distanceTo_ge:
  "0 \<le> c \<Longrightarrow> c * c \<le> (vx a - vx b) * (vx a - vx b) + (vy a - vy b) * (vy a - vy b)
                + (vz a - vz b) * (vz a - vz b) \<Longrightarrow> \<not> distanceTo a b < c"
  unfolding distanceTo_def not_less by (rule real_le_rsqrt) (simp add: power2_eq_square)

lemma more_fields:
  "position columnJumper = \<lparr>vx = 1, vy = 0.8, vz = - 0.5\<rparr>"
  "patrolAxis columnJumper = AxisZ"
  "laneInfo columnJumper = \<lparr>xMin = 0.5, xMax = 1.5, zMin = - 13.5, zMax = 12.5, axis = AxisZ, fixedCoord = 1\<rparr>"
  "position farJumper = \<lparr>vx = - 5, vy = 0.8, vz = 0\<rparr>"
  "patrolAxis farJumper = AxisX"
  "laneInfo farJumper = laneInfo demoJumper"
  "position closeJumper = \<lparr>vx = 0, vy = 0.8, vz = 0\<rparr>"
  "patrolAxis closeJumper = AxisX"
  "laneInfo closeJumper = laneInfo demoJumper"
  "position hoppingJumper = \<lparr>vx = - 0.5, vy = 1.5, vz = 0\<rparr>"
  "patrolAxis hoppingJumper = AxisX"
  "laneInfo hoppingJumper = laneInfo demoJumper"
  by (simp_all add: columnJumper_def farJumper_def closeJumper_def hoppingJumper_def demoJumper_fields
        makeJumper_def newCorridor_def MAZE_SIZE_def Let_def)

text \<open>
  The lane tests and hit tests of the concrete runs below. The player stands at height
  \<open>1.5\<close> (\<open>PLAYER_HEIGHT\<close>), an agent on the ground at \<open>0.8\<close> (\<open>baseY\<close>), a bullet flies
  at \<open>0.8\<close>.
\<close>

lemma in_lane_facts:
  "inSameLane \<lparr>vx = 2.2, vy = 1.5, vz = 0\<rparr> demoJumper" "inSameLane \<lparr>vx = 2.2, vy = 1.5, vz = 0\<rparr> farJumper" "inSameLane \<lparr>vx = 2.2, vy = 1.5, vz = 0\<rparr> closeJumper"
  "\<not> inSameLane \<lparr>vx = 2.2, vy = 1.5, vz = 0\<rparr> columnJumper"
  "inSameLane \<lparr>vx = 2.29, vy = 1.5, vz = 0\<rparr> hoppingJumper" "inSameLane \<lparr>vx = 2.31, vy = 1.5, vz = 0\<rparr> hoppingJumper" "\<not> inSameLane \<lparr>vx = - 0.5, vy = 1.5, vz = 1\<rparr> hoppingJumper"
  "inSameLane \<lparr>vx = 2.29, vy = 1.5, vz = 0\<rparr> demoJumper"
  "inSameLane \<lparr>vx = - 0.9, vy = 0.8, vz = 0.5\<rparr> demoJumper" "inSameLane \<lparr>vx = - 0.9, vy = 0.8, vz = 0.5\<rparr> farJumper" "\<not> inSameLane \<lparr>vx = - 0.9, vy = 0.8, vz = 0.5\<rparr> columnJumper"
  by (simp_all add: inSameLane_def more_fields demoJumper_fields Let_def)

lemma legal_facts:
  "knifeLegal \<lparr>vx = 2.2, vy = 1.5, vz = 0\<rparr> demoJumper"
  "\<not> knifeLegal \<lparr>vx = 2.2, vy = 1.5, vz = 0\<rparr> farJumper"
  "\<not> knifeLegal \<lparr>vx = 2.2, vy = 1.5, vz = 0\<rparr> columnJumper"
  "knifeLegal \<lparr>vx = 2.2, vy = 1.5, vz = 0\<rparr> closeJumper"
  "knifeLegal \<lparr>vx = 2.29, vy = 1.5, vz = 0\<rparr> hoppingJumper"
  "\<not> knifeLegal \<lparr>vx = 2.31, vy = 1.5, vz = 0\<rparr> hoppingJumper"
  "\<not> knifeLegal \<lparr>vx = - 0.5, vy = 1.5, vz = 1\<rparr> hoppingJumper"
  "\<not> knifeLegal \<lparr>vx = 2.29, vy = 1.5, vz = 0\<rparr> demoJumper"
  "bulletLegal \<lparr>vx = - 0.9, vy = 0.8, vz = 0.5\<rparr> demoJumper"
  "\<not> bulletLegal \<lparr>vx = - 0.9, vy = 0.8, vz = 0.5\<rparr> farJumper"
  "\<not> bulletLegal \<lparr>vx = - 0.9, vy = 0.8, vz = 0.5\<rparr> columnJumper"
proof -
  have "distanceTo \<lparr>vx = 2.2, vy = 1.5, vz = 0\<rparr> (position demoJumper) < 2.8"
    by (rule distanceTo_lt) (simp_all add: more_fields demoJumper_fields)
  then show "knifeLegal \<lparr>vx = 2.2, vy = 1.5, vz = 0\<rparr> demoJumper"
    using in_lane_facts by (simp add: knifeLegal_def KNIFE_RANGE_def)
  have "\<not> distanceTo \<lparr>vx = 2.2, vy = 1.5, vz = 0\<rparr> (position farJumper) < 2.8"
    by (rule distanceTo_ge) (simp_all add: more_fields demoJumper_fields)
  then show "\<not> knifeLegal \<lparr>vx = 2.2, vy = 1.5, vz = 0\<rparr> farJumper"
    by (simp add: knifeLegal_def KNIFE_RANGE_def)
  show "\<not> knifeLegal \<lparr>vx = 2.2, vy = 1.5, vz = 0\<rparr> columnJumper"
    using in_lane_facts by (simp add: knifeLegal_def)
  have "distanceTo \<lparr>vx = 2.2, vy = 1.5, vz = 0\<rparr> (position closeJumper) < 2.8"
    by (rule distanceTo_lt) (simp_all add: more_fields demoJumper_fields)
  then show "knifeLegal \<lparr>vx = 2.2, vy = 1.5, vz = 0\<rparr> closeJumper"
    using in_lane_facts by (simp add: knifeLegal_def KNIFE_RANGE_def)
  have "distanceTo \<lparr>vx = 2.29, vy = 1.5, vz = 0\<rparr> (position hoppingJumper) < 2.8"
    by (rule distanceTo_lt) (simp_all add: more_fields demoJumper_fields)
  then show "knifeLegal \<lparr>vx = 2.29, vy = 1.5, vz = 0\<rparr> hoppingJumper"
    using in_lane_facts by (simp add: knifeLegal_def KNIFE_RANGE_def)
  have "\<not> distanceTo \<lparr>vx = 2.31, vy = 1.5, vz = 0\<rparr> (position hoppingJumper) < 2.8"
    by (rule distanceTo_ge) (simp_all add: more_fields demoJumper_fields)
  then show "\<not> knifeLegal \<lparr>vx = 2.31, vy = 1.5, vz = 0\<rparr> hoppingJumper"
    by (simp add: knifeLegal_def KNIFE_RANGE_def)
  show "\<not> knifeLegal \<lparr>vx = - 0.5, vy = 1.5, vz = 1\<rparr> hoppingJumper"
    using in_lane_facts by (simp add: knifeLegal_def)
  have "\<not> distanceTo \<lparr>vx = 2.29, vy = 1.5, vz = 0\<rparr> (position demoJumper) < 2.8"
    by (rule distanceTo_ge) (simp_all add: more_fields demoJumper_fields)
  then show "\<not> knifeLegal \<lparr>vx = 2.29, vy = 1.5, vz = 0\<rparr> demoJumper"
    by (simp add: knifeLegal_def KNIFE_RANGE_def)
  have "distanceTo \<lparr>vx = - 0.9, vy = 0.8, vz = 0.5\<rparr> (position demoJumper) < 0.7"
    by (rule distanceTo_lt) (simp_all add: more_fields demoJumper_fields)
  then show "bulletLegal \<lparr>vx = - 0.9, vy = 0.8, vz = 0.5\<rparr> demoJumper"
    using in_lane_facts by (simp add: bulletLegal_def KNIFE_RANGE_def)
  have "\<not> distanceTo \<lparr>vx = - 0.9, vy = 0.8, vz = 0.5\<rparr> (position farJumper) < 0.7"
    by (rule distanceTo_ge) (simp_all add: more_fields demoJumper_fields)
  then show "\<not> bulletLegal \<lparr>vx = - 0.9, vy = 0.8, vz = 0.5\<rparr> farJumper"
    by (simp add: bulletLegal_def KNIFE_RANGE_def)
  show "\<not> bulletLegal \<lparr>vx = - 0.9, vy = 0.8, vz = 0.5\<rparr> columnJumper"
    using in_lane_facts by (simp add: bulletLegal_def)
qed

section \<open>Combat legality\<close>

text \<open>
  C5. The hit test of an agent \<open>j\<close> for an attacker at \<open>a\<close> is the lane test (for patrol
  axis \<open>x\<close>: \<open>|a.z - fixedCoord| < 0.8\<close> and \<open>xMin - 0.5 \<le> a.x \<le> xMax + 0.5\<close>; the same
  with \<open>x\<close> and \<open>z\<close> swapped for axis \<open>z\<close>) together with a distance below the weapon
  radius, 2.8 for the knife and 0.7 for a bullet; the distance is the one of
  \<open>Vector3.distanceTo\<close>, the square root of the three squared coordinate differences,
  height included. For every array of agents: a knife swing during the cooldown or a
  running swing removes nothing; otherwise it scans the array from its last index down,
  removes the first agent that passes the hit test and no other (the array keeps the
  agents before and after it, \<open>hitCount\<close> is 1), and removes nothing when no agent passes.
  The enemy loop of a bullet at \<open>q\<close> does the same with the bullet's hit test, and a
  bullet that has moved to \<open>q\<close>, is not in a wall and is at most 200 frames old is removed
  with the agent it hits and kept, moved and aged, when it hits none; a bullet in a wall
  or older than 200 frames is removed and no agent with it.
\<close>

theorem combat_legality:
  "let inLane = (\<lambda>a j. if patrolAxis j = AxisX
                        then \<bar>vz a - fixedCoord (laneInfo j)\<bar> < 0.8
                             \<and> xMin (laneInfo j) - 0.5 \<le> vx a \<and> vx a \<le> xMax (laneInfo j) + 0.5
                        else \<bar>vx a - fixedCoord (laneInfo j)\<bar> < 0.8
                             \<and> zMin (laneInfo j) - 0.5 \<le> vz a \<and> vz a \<le> zMax (laneInfo j) + 0.5);
       dist = (\<lambda>a j. sqrt ((vx a - vx (position j)) * (vx a - vx (position j))
                            + (vy a - vy (position j)) * (vy a - vy (position j))
                            + (vz a - vz (position j)) * (vz a - vz (position j))));
       knifeHit = (\<lambda>j. inLane p j \<and> dist p j < 2.8);
       bulletHit = (\<lambda>j. inLane q j \<and> dist q j < 0.7);
       moved = b\<lparr>bulletPos := q, lifetime := lifetime b + 1\<rparr>
   in shootKnife now lastShotTime swinging p js =
        (if now - lastShotTime < 200 \<or> swinging then (js, 0)
         else case find (\<lambda>i. knifeHit (js ! i)) (rev [0..<length js]) of
                None \<Rightarrow> (js, 0)
              | Some i \<Rightarrow> (take i js @ drop (Suc i) js, 1))
      \<and> (200 \<le> now - lastShotTime \<and> \<not> swinging \<longrightarrow>
            shootKnife now lastShotTime swinging p [j] = (if knifeHit j then ([], 1) else ([j], 0)))
      \<and> bulletHitLoop q js (length js) =
        (case find (\<lambda>i. bulletHit (js ! i)) (rev [0..<length js]) of
           None \<Rightarrow> (js, False)
         | Some i \<Rightarrow> (take i js @ drop (Suc i) js, True))
      \<and> bulletHitLoop q [j] 1 = (if bulletHit j then ([], True) else ([j], False))
      \<and> (q = addv (bulletPos b) (velocity b) \<and> isWallAt r m q = Some False \<and> lifetime b + 1 \<le> 200 \<longrightarrow>
            updateBullets r m [b] js =
              Some (case find (\<lambda>i. bulletHit (js ! i)) (rev [0..<length js]) of
                      None \<Rightarrow> ([moved], js)
                    | Some i \<Rightarrow> ([], take i js @ drop (Suc i) js)))
      \<and> (q = addv (bulletPos b) (velocity b)
           \<and> (isWallAt r m q = Some True \<or> isWallAt r m q = Some False \<and> lifetime b + 1 > 200) \<longrightarrow>
            updateBullets r m [b] js = Some ([], js))"
proof -
  have k1: "shootKnife now lastShotTime swinging p js =
        (if now - lastShotTime < 200 \<or> swinging then (js, 0)
         else case find (\<lambda>i. knifeLegal p (js ! i)) (rev [0..<length js]) of
                None \<Rightarrow> (js, 0)
              | Some i \<Rightarrow> (take i js @ drop (Suc i) js, 1))"
    by (rule shootKnife_find)
  have k2: "200 \<le> now - lastShotTime \<and> \<not> swinging \<longrightarrow>
            shootKnife now lastShotTime swinging p [j] = (if knifeLegal p j then ([], 1) else ([j], 0))"
    by (simp add: shootKnife_find)
  have b1: "bulletHitLoop q js (length js) =
        (case find (\<lambda>i. bulletLegal q (js ! i)) (rev [0..<length js]) of
           None \<Rightarrow> (js, False)
         | Some i \<Rightarrow> (take i js @ drop (Suc i) js, True))"
    by (rule bulletHitLoop_find)
  have b2: "bulletHitLoop q [j] 1 = (if bulletLegal q j then ([], True) else ([j], False))"
    by (rule bulletHitLoop_single)
  have b3: "q = addv (bulletPos b) (velocity b) \<and> isWallAt r m q = Some False \<and> lifetime b + 1 \<le> 200 \<longrightarrow>
            updateBullets r m [b] js =
              Some (case find (\<lambda>i. bulletLegal q (js ! i)) (rev [0..<length js]) of
                      None \<Rightarrow> ([b\<lparr>bulletPos := q, lifetime := lifetime b + 1\<rparr>], js)
                    | Some i \<Rightarrow> ([], take i js @ drop (Suc i) js))"
  proof (intro impI, elim conjE)
    assume q: "q = addv (bulletPos b) (velocity b)" and w: "isWallAt r m q = Some False"
      and l: "lifetime b + 1 \<le> 200"
    show "updateBullets r m [b] js =
              Some (case find (\<lambda>i. bulletLegal q (js ! i)) (rev [0..<length js]) of
                      None \<Rightarrow> ([b\<lparr>bulletPos := q, lifetime := lifetime b + 1\<rparr>], js)
                    | Some i \<Rightarrow> ([], take i js @ drop (Suc i) js))"
      using w l unfolding q updateBullets_one by simp
  qed
  have b4: "q = addv (bulletPos b) (velocity b)
           \<and> (isWallAt r m q = Some True \<or> isWallAt r m q = Some False \<and> lifetime b + 1 > 200) \<longrightarrow>
            updateBullets r m [b] js = Some ([], js)"
  proof (intro impI)
    assume h: "q = addv (bulletPos b) (velocity b)
           \<and> (isWallAt r m q = Some True \<or> isWallAt r m q = Some False \<and> lifetime b + 1 > 200)"
    then consider "isWallAt r m (addv (bulletPos b) (velocity b)) = Some True"
      | "isWallAt r m (addv (bulletPos b) (velocity b)) = Some False" "lifetime b + 1 > 200"
      by auto
    then show "updateBullets r m [b] js = Some ([], js)"
    proof cases
      case 1
      show ?thesis unfolding updateBullets_one 1 by simp
    next
      case 2
      show ?thesis unfolding updateBullets_one 2(1) using 2(2) by simp
    qed
  qed
  from k1 k2 b1 b2 b3 b4 show ?thesis
    unfolding Let_def legal_explicit by blast
qed

text \<open>
  Runs in \<open>demoMaze\<close>, the player at height 1.5. With the row's agent on the ground 2.7
  along the row, a second agent of the row far away and the agent of the crossing
  column 1.2 beside the player: the swing removes the row's agent and leaves the other
  two. With two agents of the row in reach, only the one at the higher index goes. With
  no agent passing, and during the cooldown, nothing goes. An agent in mid-hop at the
  player's height is removed at distance 2.79 in its lane, not at 2.81, and not at
  distance 1.0 one unit beside the row; the agent on the ground 2.79 along the row is
  not removed, since the height difference of 0.7 counts. A bullet that moves to
  \<open>(-0.9, 0.5)\<close> removes the row's agent next to it and itself, and not the far agent; with
  only the far agent and the column's agent it flies on.
\<close>

theorem combat_legality_witness:
  "shootKnife 1000 0 False \<lparr>vx = 2.2, vy = 1.5, vz = 0\<rparr> [demoJumper, farJumper, columnJumper] = ([farJumper, columnJumper], 1)
   \<and> shootKnife 1000 0 False \<lparr>vx = 2.2, vy = 1.5, vz = 0\<rparr> [demoJumper, closeJumper] = ([demoJumper], 1)
   \<and> shootKnife 1000 0 False \<lparr>vx = 2.2, vy = 1.5, vz = 0\<rparr> [farJumper, columnJumper] = ([farJumper, columnJumper], 0)
   \<and> shootKnife 1100 1000 False \<lparr>vx = 2.2, vy = 1.5, vz = 0\<rparr> [demoJumper] = ([demoJumper], 0)
   \<and> distanceTo \<lparr>vx = 2.29, vy = 1.5, vz = 0\<rparr> (position hoppingJumper) = 2.79
   \<and> shootKnife 1000 0 False \<lparr>vx = 2.29, vy = 1.5, vz = 0\<rparr> [hoppingJumper] = ([], 1)
   \<and> distanceTo \<lparr>vx = 2.31, vy = 1.5, vz = 0\<rparr> (position hoppingJumper) = 2.81
   \<and> shootKnife 1000 0 False \<lparr>vx = 2.31, vy = 1.5, vz = 0\<rparr> [hoppingJumper] = ([hoppingJumper], 0)
   \<and> distanceTo \<lparr>vx = - 0.5, vy = 1.5, vz = 1\<rparr> (position hoppingJumper) = 1
   \<and> shootKnife 1000 0 False \<lparr>vx = - 0.5, vy = 1.5, vz = 1\<rparr> [hoppingJumper] = ([hoppingJumper], 0)
   \<and> shootKnife 1000 0 False \<lparr>vx = 2.29, vy = 1.5, vz = 0\<rparr> [demoJumper] = ([demoJumper], 0)
   \<and> isWallAt playerRadius_basic demoMaze \<lparr>vx = - 0.9, vy = 0.8, vz = 0.5\<rparr> = Some False
   \<and> updateBullets playerRadius_basic demoMaze
        [\<lparr>bulletPos = \<lparr>vx = - 1.4, vy = 0.8, vz = 0.5\<rparr>, velocity = \<lparr>vx = 0.5, vy = 0, vz = 0\<rparr>, lifetime = 3\<rparr>]
        [demoJumper, farJumper] = Some ([], [farJumper])
   \<and> updateBullets playerRadius_basic demoMaze
        [\<lparr>bulletPos = \<lparr>vx = - 1.4, vy = 0.8, vz = 0.5\<rparr>, velocity = \<lparr>vx = 0.5, vy = 0, vz = 0\<rparr>, lifetime = 3\<rparr>]
        [farJumper, columnJumper]
       = Some ([\<lparr>bulletPos = \<lparr>vx = - 0.9, vy = 0.8, vz = 0.5\<rparr>, velocity = \<lparr>vx = 0.5, vy = 0, vz = 0\<rparr>, lifetime = 4\<rparr>], [farJumper, columnJumper])"
proof -
  have d1: "distanceTo \<lparr>vx = 2.29, vy = 1.5, vz = 0\<rparr> (position hoppingJumper) = 2.79"
    by (rule distanceTo_eq) (simp_all add: more_fields)
  have d2: "distanceTo \<lparr>vx = 2.31, vy = 1.5, vz = 0\<rparr> (position hoppingJumper) = 2.81"
    by (rule distanceTo_eq) (simp_all add: more_fields)
  have d3: "distanceTo \<lparr>vx = - 0.5, vy = 1.5, vz = 1\<rparr> (position hoppingJumper) = 1"
    by (rule distanceTo_eq) (simp_all add: more_fields)
  have w: "isWallAt playerRadius_basic demoMaze \<lparr>vx = - 0.9, vy = 0.8, vz = 0.5\<rparr> = Some False"
    by (simp add: isWallAt_def playerRadius_basic_def MAZE_SIZE_def outOfGrid_def wallCell_def
          demoMaze_def Let_def)
  have k1: "shootKnife 1000 0 False \<lparr>vx = 2.2, vy = 1.5, vz = 0\<rparr> [demoJumper, farJumper, columnJumper] = ([farJumper, columnJumper], 1)"
    using combat_legality [where p = "\<lparr>vx = 2.2, vy = 1.5, vz = 0\<rparr>" and now = 1000 and lastShotTime = 0 and swinging = False
            and j = demoJumper and js = "[demoJumper, farJumper, columnJumper]" and q = "\<lparr>vx = 0, vy = 0, vz = 0\<rparr>" and r = playerRadius_basic and m = demoMaze
            and b = "\<lparr>bulletPos = \<lparr>vx = 0, vy = 0, vz = 0\<rparr>, velocity = \<lparr>vx = 0, vy = 0, vz = 0\<rparr>, lifetime = 0\<rparr>"]
          legal_facts
    unfolding Let_def legal_explicit [symmetric]
    by (simp add: addv_def)
  have k2: "shootKnife 1000 0 False \<lparr>vx = 2.2, vy = 1.5, vz = 0\<rparr> [demoJumper, closeJumper] = ([demoJumper], 1)"
    using combat_legality [where p = "\<lparr>vx = 2.2, vy = 1.5, vz = 0\<rparr>" and now = 1000 and lastShotTime = 0 and swinging = False
            and j = demoJumper and js = "[demoJumper, closeJumper]" and q = "\<lparr>vx = 0, vy = 0, vz = 0\<rparr>" and r = playerRadius_basic and m = demoMaze
            and b = "\<lparr>bulletPos = \<lparr>vx = 0, vy = 0, vz = 0\<rparr>, velocity = \<lparr>vx = 0, vy = 0, vz = 0\<rparr>, lifetime = 0\<rparr>"]
          legal_facts
    unfolding Let_def legal_explicit [symmetric]
    by (simp add: addv_def)
  have k3: "shootKnife 1000 0 False \<lparr>vx = 2.2, vy = 1.5, vz = 0\<rparr> [farJumper, columnJumper] = ([farJumper, columnJumper], 0)"
    using combat_legality [where p = "\<lparr>vx = 2.2, vy = 1.5, vz = 0\<rparr>" and now = 1000 and lastShotTime = 0 and swinging = False
            and j = demoJumper and js = "[farJumper, columnJumper]" and q = "\<lparr>vx = 0, vy = 0, vz = 0\<rparr>" and r = playerRadius_basic and m = demoMaze
            and b = "\<lparr>bulletPos = \<lparr>vx = 0, vy = 0, vz = 0\<rparr>, velocity = \<lparr>vx = 0, vy = 0, vz = 0\<rparr>, lifetime = 0\<rparr>"]
          legal_facts
    unfolding Let_def legal_explicit [symmetric]
    by (simp add: addv_def)
  have k4: "shootKnife 1100 1000 False \<lparr>vx = 2.2, vy = 1.5, vz = 0\<rparr> [demoJumper] = ([demoJumper], 0)"
    using combat_legality [where p = "\<lparr>vx = 2.2, vy = 1.5, vz = 0\<rparr>" and now = 1100 and lastShotTime = 1000 and swinging = False
            and j = demoJumper and js = "[demoJumper]" and q = "\<lparr>vx = 0, vy = 0, vz = 0\<rparr>" and r = playerRadius_basic and m = demoMaze
            and b = "\<lparr>bulletPos = \<lparr>vx = 0, vy = 0, vz = 0\<rparr>, velocity = \<lparr>vx = 0, vy = 0, vz = 0\<rparr>, lifetime = 0\<rparr>"]
          legal_facts
    unfolding Let_def legal_explicit [symmetric]
    by (simp add: addv_def)
  have k5: "shootKnife 1000 0 False \<lparr>vx = 2.29, vy = 1.5, vz = 0\<rparr> [hoppingJumper] = ([], 1)"
    using combat_legality [where p = "\<lparr>vx = 2.29, vy = 1.5, vz = 0\<rparr>" and now = 1000 and lastShotTime = 0 and swinging = False
            and j = hoppingJumper and js = "[hoppingJumper]" and q = "\<lparr>vx = 0, vy = 0, vz = 0\<rparr>" and r = playerRadius_basic and m = demoMaze
            and b = "\<lparr>bulletPos = \<lparr>vx = 0, vy = 0, vz = 0\<rparr>, velocity = \<lparr>vx = 0, vy = 0, vz = 0\<rparr>, lifetime = 0\<rparr>"]
          legal_facts
    unfolding Let_def legal_explicit [symmetric]
    by (simp add: addv_def)
  have k6: "shootKnife 1000 0 False \<lparr>vx = 2.31, vy = 1.5, vz = 0\<rparr> [hoppingJumper] = ([hoppingJumper], 0)"
    using combat_legality [where p = "\<lparr>vx = 2.31, vy = 1.5, vz = 0\<rparr>" and now = 1000 and lastShotTime = 0 and swinging = False
            and j = hoppingJumper and js = "[hoppingJumper]" and q = "\<lparr>vx = 0, vy = 0, vz = 0\<rparr>" and r = playerRadius_basic and m = demoMaze
            and b = "\<lparr>bulletPos = \<lparr>vx = 0, vy = 0, vz = 0\<rparr>, velocity = \<lparr>vx = 0, vy = 0, vz = 0\<rparr>, lifetime = 0\<rparr>"]
          legal_facts
    unfolding Let_def legal_explicit [symmetric]
    by (simp add: addv_def)
  have k7: "shootKnife 1000 0 False \<lparr>vx = - 0.5, vy = 1.5, vz = 1\<rparr> [hoppingJumper] = ([hoppingJumper], 0)"
    using combat_legality [where p = "\<lparr>vx = - 0.5, vy = 1.5, vz = 1\<rparr>" and now = 1000 and lastShotTime = 0 and swinging = False
            and j = hoppingJumper and js = "[hoppingJumper]" and q = "\<lparr>vx = 0, vy = 0, vz = 0\<rparr>" and r = playerRadius_basic and m = demoMaze
            and b = "\<lparr>bulletPos = \<lparr>vx = 0, vy = 0, vz = 0\<rparr>, velocity = \<lparr>vx = 0, vy = 0, vz = 0\<rparr>, lifetime = 0\<rparr>"]
          legal_facts
    unfolding Let_def legal_explicit [symmetric]
    by (simp add: addv_def)
  have k8: "shootKnife 1000 0 False \<lparr>vx = 2.29, vy = 1.5, vz = 0\<rparr> [demoJumper] = ([demoJumper], 0)"
    using combat_legality [where p = "\<lparr>vx = 2.29, vy = 1.5, vz = 0\<rparr>" and now = 1000 and lastShotTime = 0 and swinging = False
            and j = demoJumper and js = "[demoJumper]" and q = "\<lparr>vx = 0, vy = 0, vz = 0\<rparr>" and r = playerRadius_basic and m = demoMaze
            and b = "\<lparr>bulletPos = \<lparr>vx = 0, vy = 0, vz = 0\<rparr>, velocity = \<lparr>vx = 0, vy = 0, vz = 0\<rparr>, lifetime = 0\<rparr>"]
          legal_facts
    unfolding Let_def legal_explicit [symmetric]
    by (simp add: addv_def)
  have u1: "updateBullets playerRadius_basic demoMaze
        [\<lparr>bulletPos = \<lparr>vx = - 1.4, vy = 0.8, vz = 0.5\<rparr>, velocity = \<lparr>vx = 0.5, vy = 0, vz = 0\<rparr>, lifetime = 3\<rparr>]
        [demoJumper, farJumper] = Some ([], [farJumper])"
    using combat_legality [where p = "\<lparr>vx = 0, vy = 0, vz = 0\<rparr>" and now = 0 and lastShotTime = 0 and swinging = True
            and j = demoJumper and js = "[demoJumper, farJumper]" and q = "\<lparr>vx = - 0.9, vy = 0.8, vz = 0.5\<rparr>" and r = playerRadius_basic and m = demoMaze
            and b = "\<lparr>bulletPos = \<lparr>vx = - 1.4, vy = 0.8, vz = 0.5\<rparr>, velocity = \<lparr>vx = 0.5, vy = 0, vz = 0\<rparr>, lifetime = 3\<rparr>"]
          w
          legal_facts
    unfolding Let_def legal_explicit [symmetric]
    by (simp add: addv_def)
  have u2: "updateBullets playerRadius_basic demoMaze
        [\<lparr>bulletPos = \<lparr>vx = - 1.4, vy = 0.8, vz = 0.5\<rparr>, velocity = \<lparr>vx = 0.5, vy = 0, vz = 0\<rparr>, lifetime = 3\<rparr>]
        [farJumper, columnJumper]
       = Some ([\<lparr>bulletPos = \<lparr>vx = - 0.9, vy = 0.8, vz = 0.5\<rparr>, velocity = \<lparr>vx = 0.5, vy = 0, vz = 0\<rparr>, lifetime = 4\<rparr>], [farJumper, columnJumper])"
    using combat_legality [where p = "\<lparr>vx = 0, vy = 0, vz = 0\<rparr>" and now = 0 and lastShotTime = 0 and swinging = True
            and j = demoJumper and js = "[farJumper, columnJumper]" and q = "\<lparr>vx = - 0.9, vy = 0.8, vz = 0.5\<rparr>" and r = playerRadius_basic and m = demoMaze
            and b = "\<lparr>bulletPos = \<lparr>vx = - 1.4, vy = 0.8, vz = 0.5\<rparr>, velocity = \<lparr>vx = 0.5, vy = 0, vz = 0\<rparr>, lifetime = 3\<rparr>"]
          w
          legal_facts
    unfolding Let_def legal_explicit [symmetric]
    by (simp add: addv_def)
  from k1 k2 k3 k4 d1 k5 d2 k6 d3 k7 k8 w u1 u2 show ?thesis by simp
qed

section \<open>Maze generator: shared lemmas\<close>

lemma carveStep_Done: "(carveStep rnd ^^ n) (Done r) = Done r"
  by (induction n) simp_all

lemma carve_unfold_step:
  "carve rnd k m visited stack current =
     (case carveStep rnd (Running k m visited stack current) of
        Running k' m' visited' stack' current' \<Rightarrow> carve rnd k' m' visited' stack' current'
      | Done r \<Rightarrow> r)"
  by (subst carve.simps) (simp add: Let_def split: prod.splits)

lemma carve_by_steps:
  "(carveStep rnd ^^ n) (Running k m visited stack current) = Done r
     \<Longrightarrow> carve rnd k m visited stack current = r"
proof (induction n arbitrary: k m visited stack current)
  case 0
  then show ?case by simp
next
  case (Suc n)
  show ?case
  proof (cases "carveStep rnd (Running k m visited stack current)")
    case (Running k' m' visited' stack' current')
    with Suc.prems have "(carveStep rnd ^^ n) (Running k' m' visited' stack' current') = Done r"
      by (simp add: funpow_swap1 del: carveStep.simps)
    from Suc.IH [OF this] Running show ?thesis
      by (simp add: carve_unfold_step [of rnd k m] del: carveStep.simps)
  next
    case (Done r')
    with Suc.prems have "r' = r"
      by (simp add: funpow_swap1 carveStep_Done del: carveStep.simps)
    with Done show ?thesis
      by (simp add: carve_unfold_step [of rnd k m] del: carveStep.simps)
  qed
qed

lemma floodFill_needs_neighbour:
  assumes "(cx, cy) \<in> floodFill m" and "(cx, cy) \<noteq> (1, 1)"
  shows "pathCell m (cx - 1) cy = Some True \<or> pathCell m (cx + 1) cy = Some True
         \<or> pathCell m cx (cy - 1) = Some True \<or> pathCell m cx (cy + 1) = Some True"
  using assms
proof (cases rule: floodFill.cases)
  case entrance
  with assms(2) show ?thesis by simp
next
  case (spread px py)
  have "pathCell m px py = Some True"
    using spread(1) by (cases rule: floodFill.cases) auto
  with spread(2) show ?thesis by auto
qed

text \<open>
  The passes after the carving only open cells: a cell that is a path cell after the
  carving is a path cell of the finished maze.
\<close>

lemma setCell_keeps_path:
  assumes "pathCell m cx cy = Some True"
  shows "pathCell (setCell m a b 0) cx cy = Some True"
proof -
  from assms have r: "0 \<le> cx" "cx < int (length m)" "0 \<le> cy" "cy < int (length (m ! nat cx))"
    and v: "m ! nat cx ! nat cy = 0"
    by (auto simp: pathCell_def split: if_splits)
  from r have n: "nat cx < length m" "nat cy < length (m ! nat cx)" by auto
  show ?thesis
  proof (cases "nat a = nat cx")
    case True
    with r n v show ?thesis
      by (cases "nat b = nat cy") (simp_all add: pathCell_def setCell_def)
  next
    case False
    with r n v show ?thesis
      by (simp add: pathCell_def setCell_def)
  qed
qed

lemma noisePass_keeps_path:
  "pathCell m cx cy = Some True \<Longrightarrow> noisePass rnd k m n = Some (m', k')
     \<Longrightarrow> pathCell m' cx cy = Some True"
proof (induction n arbitrary: m k)
  case 0
  then show ?case by simp
next
  case (Suc n)
  let ?x = "\<lfloor>rnd k * real_of_int (MAZE_SIZE - 4)\<rfloor> + 2"
  let ?y = "\<lfloor>rnd (k + 1) * real_of_int (MAZE_SIZE - 4)\<rfloor> + 2"
  let ?m1 = "setCell m ?x ?y 0"
  let ?m2 = "if rnd (k + 2) > 0.5 \<and> ?x + 1 < MAZE_SIZE - 1 then setCell ?m1 (?x + 1) ?y 0 else ?m1"
  let ?m3 = "if rnd (k + 3) > 0.5 \<and> ?y + 1 < MAZE_SIZE - 1 then setCell ?m2 ?x (?y + 1) 0 else ?m2"
  have step: "noisePass rnd k m (Suc n) =
                (case wallCell m ?x ?y of
                   None \<Rightarrow> None
                 | Some True \<Rightarrow> noisePass rnd (k + 4) ?m3 n
                 | Some False \<Rightarrow> noisePass rnd (k + 2) m n)"
    by (simp only: noisePass.simps Let_def)
  show ?case
  proof (cases "wallCell m ?x ?y")
    case None
    with step Suc.prems(2) show ?thesis by (simp only: option.case) simp
  next
    case (Some b)
    show ?thesis
    proof (cases b)
      case False
      with Some have "wallCell m ?x ?y = Some False" by simp
      with step Suc.prems(2) have "noisePass rnd (k + 2) m n = Some (m', k')"
        by (simp only: option.case bool.case)
      with Suc.prems(1) show ?thesis by (rule Suc.IH)
    next
      case True
      with Some have "wallCell m ?x ?y = Some True" by simp
      with step Suc.prems(2) have run: "noisePass rnd (k + 4) ?m3 n = Some (m', k')"
        by (simp only: option.case bool.case)
      have "pathCell ?m3 cx cy = Some True"
        using Suc.prems(1) by (simp add: setCell_keeps_path)
      then show ?thesis using run by (rule Suc.IH)
    qed
  qed
qed

lemma clearExit_keeps_path:
  "pathCell m cx cy = Some True \<Longrightarrow> pathCell (clearExit m) cx cy = Some True"
  by (simp add: clearExit_def setCell_keeps_path)

lemma foldl_keeps_path:
  "pathCell m cx cy = Some True \<Longrightarrow>
     pathCell (foldl (\<lambda>acc (dx, dz). let px = a + dx; pz = b + dz
                        in if px \<ge> 0 \<and> px < MAZE_SIZE \<and> pz \<ge> 0 \<and> pz < MAZE_SIZE
                           then setCell acc px pz 0 else acc) m ds) cx cy = Some True"
  by (induction ds arbitrary: m) (auto simp: Let_def setCell_keeps_path)

lemma clearPickup_keeps_path:
  "pathCell m cx cy = Some True \<Longrightarrow> pathCell (clearPickup m) cx cy = Some True"
  unfolding clearPickup_def Let_def by (rule foldl_keeps_path [unfolded Let_def])

lemma post_carve_only_opens:
  assumes "generateMaze rnd = Some m"
  shows "\<exists>carved k. carve rnd 0 (setCell wallGrid 1 1 0) {(1, 1)} [] (1, 1) = Some (carved, k)
           \<and> (\<forall>cx cy. pathCell carved cx cy = Some True \<longrightarrow> pathCell m cx cy = Some True)"
proof -
  from assms obtain carved k noisy k' where
    c: "carve rnd 0 (setCell wallGrid 1 1 0) {(1, 1)} [] (1, 1) = Some (carved, k)"
    and n: "noisePass rnd k carved 15 = Some (noisy, k')"
    and m: "m = clearPickup (clearExit noisy)"
    by (auto simp: generateMaze_def split: option.splits prod.splits)
  have "pathCell m cx cy = Some True" if "pathCell carved cx cy = Some True" for cx cy
    unfolding m
    by (intro clearPickup_keeps_path clearExit_keeps_path noisePass_keeps_path [OF that n])
  with c show ?thesis by blast
qed

section \<open>Connectivity of the generated maze\<close>

text \<open>
  The run of the generator on the random values \<open>isolatingRandoms\<close>, evaluated: the
  carving ends after 391 passes of its loop, and in the finished maze the entrance and
  the cell \<open>(10, 4)\<close> are path cells while the four cells around \<open>(10, 4)\<close> are walls.
\<close>

lemma isolating_run:
  "(case (carveStep isolatingRandoms ^^ 391) (Running 0 (setCell wallGrid 1 1 0) {(1, 1)} [] (1, 1)) of
      Running k m visited stack current \<Rightarrow> []
    | Done None \<Rightarrow> []
    | Done (Some (carved, k)) \<Rightarrow>
        (case noisePass isolatingRandoms k carved 15 of
           None \<Rightarrow> []
         | Some (noisy, k') \<Rightarrow>
             map (\<lambda>(cx, cy). pathCell (clearPickup (clearExit noisy)) cx cy)
               [(1, 1), (10, 4), (9, 4), (11, 4), (10, 3), (10, 5)]))
   = [Some True, Some True, Some False, Some False, Some False, Some False]"
  by code_simp

text \<open>
  C2 fails on the code. On the random values \<open>isolatingRandoms\<close> the generator returns
  a maze whose entrance is open and in which the noise pass has opened the cell
  \<open>(10, 4)\<close> between four wall cells: the cell is open and a flood fill from the entrance
  does not reach it.
\<close>

theorem generateMaze_isolated_cell:
  "\<exists>m. generateMaze isolatingRandoms = Some m
       \<and> pathCell m 1 1 = Some True
       \<and> pathCell m 10 4 = Some True
       \<and> (10, 4) \<notin> floodFill m"
proof -
  from isolating_run obtain carved k noisy k' where
    run: "(carveStep isolatingRandoms ^^ 391) (Running 0 (setCell wallGrid 1 1 0) {(1, 1)} [] (1, 1))
          = Done (Some (carved, k))"
    and noise: "noisePass isolatingRandoms k carved 15 = Some (noisy, k')"
    and cells: "map (\<lambda>(cx, cy). pathCell (clearPickup (clearExit noisy)) cx cy)
                  [(1, 1), (10, 4), (9, 4), (11, 4), (10, 3), (10, 5)]
                = [Some True, Some True, Some False, Some False, Some False, Some False]"
    by (auto split: carve_state.splits option.splits prod.splits)
  let ?m = "clearPickup (clearExit noisy)"
  from carve_by_steps [OF run] noise have gen: "generateMaze isolatingRandoms = Some ?m"
    by (simp add: generateMaze_def)
  from cells have c: "pathCell ?m 1 1 = Some True" "pathCell ?m 10 4 = Some True"
      "pathCell ?m 9 4 = Some False" "pathCell ?m 11 4 = Some False"
      "pathCell ?m 10 3 = Some False" "pathCell ?m 10 5 = Some False"
    by simp_all
  have "(10, 4) \<notin> floodFill ?m"
  proof
    assume "(10, 4) \<in> floodFill ?m"
    from floodFill_needs_neighbour [OF this] c show False by simp
  qed
  with gen c show ?thesis by blast
qed

end
